theory Spec2Isabelle
  imports Main "HOL-Library.Word"
begin

section \<open>Python values shared by the modules\<close>

text \<open>
  The repository holds two implementations of the same service: the package started by
  \<^verbatim>\<open>main.py\<close> (\<^verbatim>\<open>api/routes.py\<close>, \<^verbatim>\<open>api/helpers.py\<close>, \<^verbatim>\<open>core/file_processor.py\<close>,
  \<^verbatim>\<open>core/aimodels.py\<close>) and the single-file \<^verbatim>\<open>app.py\<close>. Both are embedded here, function
  by function, under the names of the source.

  A raised exception is a value: every function that can raise returns a \<open>result\<close>.
  Each exception carries the text that \<^verbatim>\<open>str(e)\<close> gives, except \<open>HTTPException\<close>, which
  carries its status code and its detail, and two exceptions of pandas that stand for
  whatever it raises there: \<open>FrameError\<close>, which ends the report on a list of results that
  are not all mappings (see \<open>DataFrame\<close> below), and \<open>SumError\<close>, raised by a sum outside
  the ranges in which the arithmetic is modelled (see \<open>sum_axis1\<close> below).
\<close>

type_synonym bytes = "8 word list"

record upload_file =
  filename :: string
  content_type :: string
  payload :: bytes

datatype exc =
    HTTPException nat string
  | ValueError string
  | TypeError string
  | KeyError string
  | JSONDecodeError string
  | PdfReadError string
  | PythonDocxError string
  | PackageNotFoundError string
  | AttributeError string
  | OtherError string
  | FrameError
  | SumError

datatype 'a result = Returned 'a | Raised exc

text \<open>
  The status the HTTP framework answers with: the status of an \<open>HTTPException\<close>, and 500
  for any other exception that leaves an endpoint.
\<close>

fun http_status :: "'a result \<Rightarrow> nat" where
  "http_status (Returned _) = 200"
| "http_status (Raised (HTTPException status _)) = status"
| "http_status (Raised _) = 500"

subsection \<open>String operations of Python\<close>

text \<open>
  A text is a list of characters with code points below 256. \<open>is_space\<close> lists the
  characters below 256 that \<^verbatim>\<open>str.isspace\<close> accepts: tab, line feed, vertical tab, form
  feed, carriage return, the four separators 0x1C to 0x1F, space, 0x85 and 0xA0.
\<close>

definition is_space :: "char \<Rightarrow> bool" where
  "is_space c = (c \<in> set [CHR 0x09, CHR 0x0A, CHR 0x0B, CHR 0x0C, CHR 0x0D,
     CHR 0x1C, CHR 0x1D, CHR 0x1E, CHR 0x1F, CHR 0x20, CHR 0x85, CHR 0xA0])"

definition strip :: "string \<Rightarrow> string" where
  "strip s = rev (dropWhile is_space (rev (dropWhile is_space s)))"

definition lstrip :: "string \<Rightarrow> string \<Rightarrow> string" where
  "lstrip chars s = dropWhile (\<lambda>c. c \<in> set chars) s"

definition rstrip :: "string \<Rightarrow> string \<Rightarrow> string" where
  "rstrip chars s = rev (dropWhile (\<lambda>c. c \<in> set chars) (rev s))"

text \<open>\<^verbatim>\<open>s.split('\n')\<close>: the empty text splits into one empty line.\<close>

fun split_nl :: "string \<Rightarrow> string list" where
  "split_nl [] = [[]]"
| "split_nl (c # cs) =
     (if c = CHR 0x0A then [] # split_nl cs
      else (case split_nl cs of l # ls \<Rightarrow> (c # l) # ls | [] \<Rightarrow> [[c]]))"

text \<open>\<^verbatim>\<open>sep.join(xs)\<close>.\<close>

fun join :: "string \<Rightarrow> string list \<Rightarrow> string" where
  "join sep [] = []"
| "join sep [x] = x"
| "join sep (x # y # ys) = x @ sep @ join sep (y # ys)"

text \<open>\<^verbatim>\<open>sub in s\<close> on two texts: \<open>sub\<close> occurs in \<open>s\<close> as a contiguous run.\<close>

fun contains :: "string \<Rightarrow> string \<Rightarrow> bool" where
  "contains [] sub = (sub = [])"
| "contains (c # cs) sub = (take (length sub) (c # cs) = sub \<or> contains cs sub)"

fun show_nat :: "nat \<Rightarrow> string" where
  "show_nat n =
     (if n < 10 then [''0123456789'' ! n]
      else show_nat (n div 10) @ [''0123456789'' ! (n mod 10)])"

text \<open>\<^verbatim>\<open>str(e)\<close>; an \<open>HTTPException\<close> prints as its status, a colon and its detail.\<close>

fun str_exc :: "exc \<Rightarrow> string" where
  "str_exc (HTTPException status detail) = show_nat status @ '': '' @ detail"
| "str_exc (ValueError m) = m"
| "str_exc (TypeError m) = m"
| "str_exc (KeyError m) = m"
| "str_exc (JSONDecodeError m) = m"
| "str_exc (PdfReadError m) = m"
| "str_exc (PythonDocxError m) = m"
| "str_exc (PackageNotFoundError m) = m"
| "str_exc (AttributeError m) = m"
| "str_exc (OtherError m) = m"
| "str_exc FrameError = []"
| "str_exc SumError = []"

text \<open>Indexing a text with a text, as in \<^verbatim>\<open>text["error"]\<close>.\<close>

definition str_index_error :: exc where
  "str_index_error = TypeError (''string indices must be integers, not '' @ [CHR 0x27] @ ''str'' @ [CHR 0x27])"

section \<open>The external collaborators\<close>

text \<open>
  The PDF and DOCX libraries, the generative backend and the JSON parser are not part of
  the repository. Each is a function of the environment, from the input the code hands
  over to what the code observes.

  \<^item> \<open>pdf_reader\<close>: \<^verbatim>\<open>PyPDF2.PdfReader(content)\<close> followed by \<^verbatim>\<open>extract_text()\<close> on every
    page: the texts of the pages (\<open>None\<close> where a page has none), or the exception raised
    on the way.
  \<^item> \<open>docx_document\<close>: \<^verbatim>\<open>docx.Document(content)\<close>: the texts of the paragraphs, or the
    exception raised.
  \<^item> \<open>generate_content\<close>: the call of the backend and the reading of \<^verbatim>\<open>.text\<close>.
  \<^item> \<open>json_loads\<close>: \<^verbatim>\<open>json.loads\<close>. A parsed document is a mapping from keys to integers
    and strings (the items of the dictionary, in the order of its keys, every key once),
    an array, or a string or number. Fractions, booleans and nested values inside a
    mapping, and the document null, are not modelled.
  \<^item> \<open>wide_sum\<close>: the total that \<^verbatim>\<open>sum(axis=1)\<close> of pandas gives to row \<open>k\<close> of a frame with
    the given rows, \<open>None\<close> when it raises. It is consulted only outside the two ranges in
    which \<open>sum_axis1\<close> below computes the total itself; there the total depends on the
    types that pandas infers for the columns and on its floating-point arithmetic.
\<close>

datatype pdf_outcome = PdfPages "string option list" | PdfRaises exc

datatype docx_outcome = DocxParagraphs "string list" | DocxRaises exc

datatype cell = Num int | Str string

datatype parsed = PMap "(string \<times> cell) list" | PList | PScalar

datatype prompt =
    CriteriaPrompt string
  | RankPrompt string string
  | ShortenPrompt "cell list"
  | AppCriteriaPrompt string
  | AppScorePrompt string string

record env =
  pdf_reader :: "bytes \<Rightarrow> pdf_outcome"
  docx_document :: "bytes \<Rightarrow> docx_outcome"
  generate_content :: "prompt \<Rightarrow> string result"
  json_loads :: "string \<Rightarrow> parsed result"
  wide_sum :: "cell option list list \<Rightarrow> nat \<Rightarrow> cell option"

text \<open>The calls of the parsing libraries are logged, in the order they are made.\<close>

datatype lib_call = PdfReader_call bytes | Document_call bytes

section \<open>core/file\_processor.py\<close>

text \<open>
  \<open>extract_text\<close> returns the text, or the dictionary with the keys \<^verbatim>\<open>status_code\<close> and
  \<^verbatim>\<open>error\<close>.
\<close>

datatype extraction = Text string | ErrorDict nat string

definition pdf_type :: string where
  "pdf_type = ''application/pdf''"

definition docx_type :: string where
  "docx_type = ''application/vnd.openxmlformats-officedocument.wordprocessingml.document''"

definition validate_size :: "bytes \<Rightarrow> unit result" where
  "validate_size file =
     (if length file > 5 * 1024 * 1024 then Raised (ValueError ''File size exceeds 5MB limit'')
      else Returned ())"

text \<open>The constructor of \<open>BaseDoc\<close> and of its subclasses: the document, once its size is validated.\<close>

definition BaseDoc :: "bytes \<Rightarrow> bytes result" where
  "BaseDoc file_data =
     (case validate_size file_data of Raised e \<Rightarrow> Raised e | Returned _ \<Rightarrow> Returned file_data)"

definition PdfDoc_extract_text :: "env \<Rightarrow> bytes \<Rightarrow> extraction \<times> lib_call list" where
  "PdfDoc_extract_text E content =
     (case pdf_reader E content of
        PdfPages pages \<Rightarrow>
          if pages = [] then ErrorDict 422 ''PDF contains no readable text''
          else Text (join [CHR 0x0A] (map (\<lambda>p. case p of None \<Rightarrow> [] | Some t \<Rightarrow> t) pages))
      | PdfRaises (PdfReadError m) \<Rightarrow> ErrorDict 422 ''Invalid PDF structure - unable to read file''
      | PdfRaises e \<Rightarrow> ErrorDict 422 (''PDF processing error: '' @ str_exc e),
      [PdfReader_call content])"

definition DocxDoc_extract_text :: "env \<Rightarrow> bytes \<Rightarrow> extraction \<times> lib_call list" where
  "DocxDoc_extract_text E content =
     (case docx_document E content of
        DocxParagraphs paragraphs \<Rightarrow>
          if paragraphs = [] then ErrorDict 422 ''DOCX contains no readable text''
          else Text (join '' '' paragraphs)
      | DocxRaises (PythonDocxError m) \<Rightarrow> ErrorDict 422 ''Invalid DOCX file - corrupted or empty''
      | DocxRaises e \<Rightarrow> ErrorDict 422 (''DOCX processing error: '' @ str_exc e),
      [Document_call content])"

text \<open>
  \<open>DocProcessor.process\<close>: \<open>from_upload\<close> reads the upload and builds a \<open>BaseDoc\<close>, then
  the declared content type selects the subclass, whose constructor validates the size
  again.
\<close>

definition DocProcessor_process :: "env \<Rightarrow> upload_file \<Rightarrow> extraction result \<times> lib_call list" where
  "DocProcessor_process E file =
     (case BaseDoc (payload file) of
        Raised e \<Rightarrow> (Raised e, [])
      | Returned doc \<Rightarrow>
          if content_type file = pdf_type then
            (case BaseDoc doc of
               Raised e \<Rightarrow> (Raised e, [])
             | Returned d \<Rightarrow> (Returned (fst (PdfDoc_extract_text E d)), snd (PdfDoc_extract_text E d)))
          else if content_type file = docx_type then
            (case BaseDoc doc of
               Raised e \<Rightarrow> (Raised e, [])
             | Returned d \<Rightarrow> (Returned (fst (DocxDoc_extract_text E d)), snd (DocxDoc_extract_text E d)))
          else (Returned (ErrorDict 422 ''Unsupported file type. Upload PDF or DOCX.''), []))"

section \<open>core/aimodels.py\<close>

text \<open>
  \<open>extract_criteria\<close> returns one of two dictionaries: \<^verbatim>\<open>{"error", "status_code"}\<close> or
  \<^verbatim>\<open>{"requirements", "code"}\<close>. Every exception of the backend call is caught.
\<close>

datatype criteria_reply = CriteriaError string nat | Requirements "string list" nat

definition models_extract_criteria :: "env \<Rightarrow> string \<Rightarrow> criteria_reply" where
  "models_extract_criteria E job_description =
     (case generate_content E (CriteriaPrompt job_description) of
        Raised e \<Rightarrow> CriteriaError (''Extraction failed: '' @ str_exc e) 500
      | Returned text \<Rightarrow>
          if strip text = ''INVALID_INPUT'' then CriteriaError ''Not a valid Job Description'' 400
          else Requirements (split_nl (strip text)) 200)"

text \<open>
  \<open>rank_resumes\<close> returns \<^verbatim>\<open>{"error", "status_code"}\<close> or \<^verbatim>\<open>{"response", "status_code"}\<close>.
  The backend call stands outside any \<^verbatim>\<open>try\<close>. The fence is removed with
  \<^verbatim>\<open>lstrip("```json")\<close> and \<^verbatim>\<open>rstrip("```")\<close>, which strip sets of characters.
\<close>

datatype rank_reply = RankError string nat | RankResponse string nat

definition fence_json :: string where
  "fence_json = [CHR 0x60, CHR 0x60, CHR 0x60, CHR ''j'', CHR ''s'', CHR ''o'', CHR ''n'']"

definition fence :: string where
  "fence = [CHR 0x60, CHR 0x60, CHR 0x60]"

definition models_rank_resumes :: "env \<Rightarrow> string \<Rightarrow> string \<Rightarrow> rank_reply result" where
  "models_rank_resumes E req_ls resume =
     (case generate_content E (RankPrompt req_ls resume) of
        Raised e \<Rightarrow> Raised e
      | Returned text \<Rightarrow>
          if contains (strip text) ''NOT_VALID''
          then Returned (RankError ''Not a valid Resume or Job Requirements'' 400)
          else Returned (RankResponse (rstrip fence (lstrip fence_json text)) 200))"

definition shorten_requirements :: "env \<Rightarrow> cell list \<Rightarrow> parsed result" where
  "shorten_requirements E req_ls =
     (case generate_content E (ShortenPrompt req_ls) of
        Raised e \<Rightarrow> Raised e
      | Returned text \<Rightarrow> json_loads E (rstrip fence (lstrip fence_json text)))"

section \<open>The operations of pandas that the report uses\<close>

text \<open>
  A frame has a list of column labels and one list of cells per row; a cell that a record
  does not fill is missing (\<open>None\<close>). A label is a key of a record, or whatever the
  relabelling puts in its place.

  \<open>DataFrame\<close> on a list of mappings: one row per mapping, in the order of the list, one
  column per key, in the order in which the keys first appear. The entries of the list are
  the values and the exception objects that the orchestrator collected. When one of them
  is not a mapping, no report is built: the constructor raises when the first entry is a
  mapping (the other entry has no keys), and otherwise builds a frame whose labels are
  integers, on which \<^verbatim>\<open>drop('Candidate Name', axis=1)\<close> raises unless the call of the
  shortener before it has raised already. \<open>FrameError\<close> stands for the exception that ends
  the report in these cases.
\<close>

record data_frame =
  columns :: "cell list"
  rows :: "cell option list list"

fun is_mapping :: "parsed result \<Rightarrow> bool" where
  "is_mapping (Returned (PMap kvs)) = True"
| "is_mapping _ = False"

fun items :: "parsed result \<Rightarrow> (string \<times> cell) list" where
  "items (Returned (PMap kvs)) = kvs"
| "items _ = []"

fun add_keys :: "string list \<Rightarrow> string list \<Rightarrow> string list" where
  "add_keys seen [] = seen"
| "add_keys seen (k # ks) = (if k \<in> set seen then add_keys seen ks else add_keys (seen @ [k]) ks)"

definition all_keys :: "parsed result list \<Rightarrow> string list" where
  "all_keys data = foldl add_keys [] (map (\<lambda>d. map fst (items d)) data)"

definition DataFrame :: "parsed result list \<Rightarrow> data_frame result" where
  "DataFrame data =
     (if list_all is_mapping data
      then Returned \<lparr>columns = map Str (all_keys data),
                     rows = map (\<lambda>d. map (map_of (items d)) (all_keys data)) data\<rparr>
      else Raised FrameError)"

text \<open>
  \<^verbatim>\<open>df.rename(columns=colmap)\<close>: a label that is a key of the mapping is replaced by its
  value. A reply that is an array is called as a function on the first label, a reply that
  is a string or a number is refused as an index; both raise \<open>TypeError\<close>.
\<close>

fun relabel :: "(string \<times> cell) list \<Rightarrow> cell \<Rightarrow> cell" where
  "relabel m (Str k) = (case map_of m k of Some v \<Rightarrow> v | None \<Rightarrow> Str k)"
| "relabel m (Num n) = Num n"

fun rename :: "parsed \<Rightarrow> data_frame \<Rightarrow> data_frame result" where
  "rename (PMap m) df = Returned (df\<lparr>columns := map (relabel m) (columns df)\<rparr>)"
| "rename PList df =
     (if columns df = [] then Returned df else Raised (TypeError ''object is not callable''))"
| "rename PScalar df = Raised (TypeError ''Index(...) must be called with a collection'')"

text \<open>
  \<^verbatim>\<open>df.drop(label, axis=1)\<close> removes every column with that label and raises \<open>KeyError\<close>
  when there is none.
\<close>

definition drop_column :: "string \<Rightarrow> data_frame \<Rightarrow> data_frame result" where
  "drop_column label df =
     (if Str label \<in> set (columns df)
      then Returned \<lparr>columns = filter (\<lambda>c. c \<noteq> Str label) (columns df),
                     rows = map (\<lambda>row. map snd (filter (\<lambda>cv. fst cv \<noteq> Str label) (zip (columns df) row)))
                              (rows df)\<rparr>
      else Raised (KeyError ([CHR 0x22] @ ''['' @ [CHR 0x27] @ label @ [CHR 0x27]
                               @ ''] not found in axis'' @ [CHR 0x22])))"

text \<open>
  \<^verbatim>\<open>df.sum(axis=1)\<close>. What pandas computes depends on the types it infers for the columns:
  a column of integers within 64 bits is added in 64-bit integers, a column with a
  missing cell is a column of floating-point numbers, and a column with a string is a
  column of Python objects. The total is computed here in two ranges.

  \<^item> When in every row the absolute values of the integers add up to at most 9007199254740992 (2 to the power 53),
    every one of these arithmetics is exact on the integers: a missing cell counts as 0,
    and the cells of a row are added from left to right with the addition of Python: two
    integers add, two strings concatenate, an integer and a string raise \<open>TypeError\<close>. A
    single fault fails the whole sum.
  \<^item> Otherwise, when every cell is an integer within 64 bits, every column is a column of
    64-bit integers and the total of a row is the sum of its cells, wrapped around to 64
    bits.

  Outside these ranges the total of a row is what \<open>wide_sum\<close> of the environment gives.
\<close>

text \<open>
  The addition of Python on two cells, and the sums built from it: they are the total in
  the first range only, where no integer arithmetic of pandas rounds or wraps around.
\<close>

fun add_cell :: "cell \<Rightarrow> cell \<Rightarrow> cell result" where
  "add_cell (Num a) (Num b) = Returned (Num (a + b))"
| "add_cell (Str a) (Str b) = Returned (Str (a @ b))"
| "add_cell _ _ = Raised (TypeError ''unsupported operand type(s) for +'')"

fun sum_from :: "cell \<Rightarrow> cell list \<Rightarrow> cell result" where
  "sum_from acc [] = Returned acc"
| "sum_from acc (x # xs) =
     (case add_cell acc x of Raised e \<Rightarrow> Raised e | Returned a \<Rightarrow> sum_from a xs)"

definition fillna :: "cell option \<Rightarrow> cell" where
  "fillna c = (case c of None \<Rightarrow> Num 0 | Some v \<Rightarrow> v)"

definition row_sum :: "cell option list \<Rightarrow> cell result" where
  "row_sum row = (case map fillna row of [] \<Rightarrow> Returned (Num 0) | x # xs \<Rightarrow> sum_from x xs)"

fun sum_rows :: "cell option list list \<Rightarrow> cell list result" where
  "sum_rows [] = Returned []"
| "sum_rows (row # rest) =
     (case row_sum row of
        Raised e \<Rightarrow> Raised e
      | Returned t \<Rightarrow> (case sum_rows rest of Raised e \<Rightarrow> Raised e | Returned ts \<Rightarrow> Returned (t # ts)))"

definition int_of :: "cell option \<Rightarrow> int" where
  "int_of c = (case c of Some (Num n) \<Rightarrow> n | _ \<Rightarrow> 0)"

definition magnitude :: "cell option list \<Rightarrow> int" where
  "magnitude row = sum_list (map (\<lambda>c. \<bar>int_of c\<bar>) row)"

definition exact_rows :: "cell option list list \<Rightarrow> bool" where
  "exact_rows rs = list_all (\<lambda>row. magnitude row \<le> 9007199254740992) rs"

definition is_int64 :: "cell option \<Rightarrow> bool" where
  "is_int64 c =
     (case c of
        Some (Num n) \<Rightarrow> - 9223372036854775808 \<le> n \<and> n < 9223372036854775808
      | _ \<Rightarrow> False)"

definition int64_rows :: "cell option list list \<Rightarrow> bool" where
  "int64_rows rs = list_all (list_all is_int64) rs"

definition wrap64 :: "int \<Rightarrow> int" where
  "wrap64 n = (n + 9223372036854775808) mod 18446744073709551616 - 9223372036854775808"

fun collect :: "cell option list \<Rightarrow> cell list result" where
  "collect [] = Returned []"
| "collect (None # rest) = Raised SumError"
| "collect (Some t # rest) =
     (case collect rest of Raised e \<Rightarrow> Raised e | Returned ts \<Rightarrow> Returned (t # ts))"

definition row_totals :: "env \<Rightarrow> cell option list list \<Rightarrow> cell list result" where
  "row_totals E rs =
     (if exact_rows rs then sum_rows rs
      else if int64_rows rs then Returned (map (\<lambda>row. Num (wrap64 (sum_list (map int_of row)))) rs)
      else collect (map (wide_sum E rs) [0..<length rs]))"

definition sum_axis1 :: "env \<Rightarrow> data_frame \<Rightarrow> cell list result" where
  "sum_axis1 E df = row_totals E (rows df)"

text \<open>
  \<^verbatim>\<open>df[label] = values\<close>: a new column at the right end, or, when the label is there
  already, new values in every column that carries it.
\<close>

definition set_column :: "cell \<Rightarrow> cell list \<Rightarrow> data_frame \<Rightarrow> data_frame" where
  "set_column label values df =
     (if label \<in> set (columns df)
      then df\<lparr>rows := map2 (\<lambda>row v. map2 (\<lambda>c x. if c = label then Some v else x) (columns df) row)
                          (rows df) values\<rparr>
      else df\<lparr>columns := columns df @ [label],
              rows := map2 (\<lambda>row v. row @ [Some v]) (rows df) values\<rparr>)"

text \<open>
  The step shared by both implementations:
  \<^verbatim>\<open>df['Total Score'] = df.drop('Candidate Name', axis=1).sum(axis=1)\<close>.
\<close>

definition total_score :: "env \<Rightarrow> data_frame \<Rightarrow> data_frame result" where
  "total_score E df =
     (case drop_column ''Candidate Name'' df of
        Raised e \<Rightarrow> Raised e
      | Returned d \<Rightarrow>
          (case sum_axis1 E d of
             Raised e \<Rightarrow> Raised e
           | Returned totals \<Rightarrow> Returned (set_column (Str ''Total Score'') totals df)))"

section \<open>api/helpers.py\<close>

text \<open>
  \<open>process_resume\<close>: the test \<^verbatim>\<open>"error" in text\<close> is a key test when \<open>process\<close> returned
  the error dictionary and a substring test when it returned the text; in the second case
  \<^verbatim>\<open>text["error"]\<close> raises \<open>TypeError\<close>. \<^verbatim>\<open>json.loads\<close> stands outside any \<^verbatim>\<open>try\<close>.
\<close>

definition process_resume :: "env \<Rightarrow> upload_file \<Rightarrow> string \<Rightarrow> parsed result" where
  "process_resume E resume requirements =
     (case fst (DocProcessor_process E resume) of
        Raised e \<Rightarrow> Raised e
      | Returned (ErrorDict status_code error) \<Rightarrow> Raised (HTTPException status_code error)
      | Returned (Text text) \<Rightarrow>
          if contains text ''error'' then Raised str_index_error
          else
            (case models_rank_resumes E requirements text of
               Raised e \<Rightarrow> Raised e
             | Returned (RankError error status_code) \<Rightarrow> Raised (HTTPException status_code error)
             | Returned (RankResponse response status_code) \<Rightarrow> json_loads E response))"

text \<open>\<open>generate_excel\<close>; the spreadsheet written by \<^verbatim>\<open>to_excel\<close> is the frame itself.\<close>

definition generate_excel :: "env \<Rightarrow> parsed result list \<Rightarrow> data_frame result" where
  "generate_excel E results =
     (case DataFrame results of
        Raised e \<Rightarrow> Raised e
      | Returned df \<Rightarrow>
          (case shorten_requirements E (columns df) of
             Raised e \<Rightarrow> Raised e
           | Returned colmap \<Rightarrow>
               (case rename colmap df of
                  Raised e \<Rightarrow> Raised e
                | Returned df' \<Rightarrow> total_score E df')))"

section \<open>api/routes.py\<close>

definition routes_extract_criteria :: "env \<Rightarrow> upload_file \<Rightarrow> string list result" where
  "routes_extract_criteria E file =
     (case fst (DocProcessor_process E file) of
        Raised e \<Rightarrow> Raised e
      | Returned (ErrorDict status_code error) \<Rightarrow> Raised (HTTPException status_code error)
      | Returned (Text text) \<Rightarrow>
          if contains text ''error'' then Raised str_index_error
          else
            (case models_extract_criteria E text of
               CriteriaError error status_code \<Rightarrow> Raised (HTTPException status_code error)
             | Requirements requirements code \<Rightarrow> Returned requirements))"

text \<open>
  \<^verbatim>\<open>asyncio.gather(*tasks, return_exceptions=True)\<close> returns, in the order of the tasks, the
  value each task returned or the exception it raised: a list of results. The loop after
  it moves the details of the \<open>HTTPException\<close>s to \<open>errors\<close> and everything else to
  \<open>final_results\<close>.
\<close>

definition gather :: "env \<Rightarrow> string \<Rightarrow> upload_file list \<Rightarrow> parsed result list" where
  "gather E requirements resumes = map (\<lambda>resume. process_resume E resume requirements) resumes"

fun fan_in :: "parsed result list \<Rightarrow> parsed result list \<Rightarrow> string list
    \<Rightarrow> parsed result list \<times> string list" where
  "fan_in [] final_results errors = (final_results, errors)"
| "fan_in (Raised (HTTPException status detail) # rest) final_results errors =
     fan_in rest final_results (errors @ [detail])"
| "fan_in (res # rest) final_results errors = fan_in rest (final_results @ [res]) errors"

definition routes_rank_resumes :: "env \<Rightarrow> string \<Rightarrow> upload_file list \<Rightarrow> data_frame result" where
  "routes_rank_resumes E requirements resumes =
     generate_excel E (fst (fan_in (gather E requirements resumes) [] []))"

section \<open>app.py\<close>

text \<open>
  The extraction functions raise \<open>HTTPException\<close> themselves. The \<open>ValueError\<close> for a
  document without pages or paragraphs is raised inside the \<^verbatim>\<open>try\<close>.

  In \<open>extract_text_from_pdf\<close> the first handler is \<^verbatim>\<open>except PyPDF2.PdfReadError\<close>, and the
  module \<^verbatim>\<open>PyPDF2\<close> has no such attribute (the class is \<^verbatim>\<open>PyPDF2.errors.PdfReadError\<close>, as
  \<^verbatim>\<open>file_processor.py\<close> spells it). Python evaluates the handler when an exception
  reaches it, so every exception of the \<^verbatim>\<open>try\<close> body ends as the \<open>AttributeError\<close> of that
  evaluation, which no later handler of the same \<^verbatim>\<open>try\<close> catches.
\<close>

definition no_PdfReadError :: exc where
  "no_PdfReadError =
     AttributeError (''module '' @ [CHR 0x27] @ ''PyPDF2'' @ [CHR 0x27] @ '' has no attribute ''
                       @ [CHR 0x27] @ ''PdfReadError'' @ [CHR 0x27])"

definition extract_text_from_pdf :: "env \<Rightarrow> bytes \<Rightarrow> string result \<times> lib_call list" where
  "extract_text_from_pdf E file_content =
     (case pdf_reader E file_content of
        PdfPages pages \<Rightarrow>
          if pages = [] then Raised no_PdfReadError
          else Returned (join [CHR 0x0A] (map (\<lambda>p. case p of None \<Rightarrow> [] | Some t \<Rightarrow> t) pages))
      | PdfRaises e \<Rightarrow> Raised no_PdfReadError,
      [PdfReader_call file_content])"

text \<open>
  The handlers of \<open>extract_text_from_docx\<close> name a class that exists,
  \<^verbatim>\<open>docx.opc.exceptions.PackageNotFoundError\<close>.
\<close>

fun docx_handlers :: "exc \<Rightarrow> exc" where
  "docx_handlers (PackageNotFoundError m) = HTTPException 422 ''Invalid DOCX file - corrupted or empty''"
| "docx_handlers e = HTTPException 422 (''DOCX processing error: '' @ str_exc e)"

definition extract_text_from_docx :: "env \<Rightarrow> bytes \<Rightarrow> string result \<times> lib_call list" where
  "extract_text_from_docx E file_content =
     (case docx_document E file_content of
        DocxParagraphs paragraphs \<Rightarrow>
          if paragraphs = [] then Raised (docx_handlers (ValueError ''DOCX contains no readable text''))
          else Returned (join '' '' paragraphs)
      | DocxRaises e \<Rightarrow> Raised (docx_handlers e),
      [Document_call file_content])"

definition extract_criteria_with_gemini :: "env \<Rightarrow> string \<Rightarrow> string list result" where
  "extract_criteria_with_gemini E text =
     (case generate_content E (AppCriteriaPrompt text) of
        Raised e \<Rightarrow> Raised (HTTPException 500 (''Error processing with Gemini: '' @ str_exc e))
      | Returned response_text \<Rightarrow> Returned (split_nl (strip response_text)))"

text \<open>
  \<open>score_resume_with_gemini\<close>: the \<open>HTTPException\<close> raised for a \<open>JSONDecodeError\<close> is
  raised inside the outer \<^verbatim>\<open>try\<close>, whose handler catches every exception and wraps it.
\<close>

definition scoring_error :: "exc \<Rightarrow> exc" where
  "scoring_error e = HTTPException 500 (''Resume scoring error: '' @ str_exc e)"

definition score_resume_with_gemini :: "env \<Rightarrow> string \<Rightarrow> string \<Rightarrow> parsed result" where
  "score_resume_with_gemini E resume_text requirements =
     (case generate_content E (AppScorePrompt requirements resume_text) of
        Raised e \<Rightarrow> Raised (scoring_error e)
      | Returned text \<Rightarrow>
          (case json_loads E (rstrip fence (lstrip fence_json text)) of
             Returned result \<Rightarrow> Returned result
           | Raised (JSONDecodeError m) \<Rightarrow>
               Raised (scoring_error (HTTPException 500 ''Invalid JSON response from Gemini.''))
           | Raised e \<Rightarrow> Raised (scoring_error e)))"

definition supported :: "upload_file \<Rightarrow> bool" where
  "supported file = (content_type file \<in> set [pdf_type, docx_type])"

definition app_extract_text :: "env \<Rightarrow> upload_file \<Rightarrow> string result \<times> lib_call list" where
  "app_extract_text E file =
     (if content_type file = pdf_type then extract_text_from_pdf E (payload file)
      else extract_text_from_docx E (payload file))"

definition extract_criteria_endpoint :: "env \<Rightarrow> upload_file \<Rightarrow> string list result \<times> lib_call list" where
  "extract_criteria_endpoint E file =
     (if length (payload file) > 5 * 1024 * 1024
      then (Raised (HTTPException 400 ''File size exceeds 5MB limit''), [])
      else if \<not> supported file
      then (Raised (HTTPException 400 ''Unsupported file type. Upload PDF or DOCX.''), [])
      else
        (case fst (app_extract_text E file) of
           Raised e \<Rightarrow> (Raised e, snd (app_extract_text E file))
         | Returned text \<Rightarrow> (extract_criteria_with_gemini E text, snd (app_extract_text E file))))"

text \<open>
  The loop of \<open>rank_resumes\<close>: a resume of another type is skipped, and the first
  exception ends the request.
\<close>

fun score_all :: "env \<Rightarrow> string \<Rightarrow> upload_file list \<Rightarrow> parsed list \<Rightarrow> parsed list result" where
  "score_all E requirements [] results = Returned results"
| "score_all E requirements (resume # rest) results =
     (if \<not> supported resume then score_all E requirements rest results
      else
        (case fst (app_extract_text E resume) of
           Raised e \<Rightarrow> Raised e
         | Returned text \<Rightarrow>
             (case score_resume_with_gemini E text requirements of
                Raised e \<Rightarrow> Raised e
              | Returned scores \<Rightarrow> score_all E requirements rest (results @ [scores]))))"

definition app_rank_resumes :: "env \<Rightarrow> string \<Rightarrow> upload_file list \<Rightarrow> data_frame result" where
  "app_rank_resumes E requirements resumes =
     (if length resumes > 50
      then Raised (HTTPException 400 ''Maximum of 50 resumes allowed per request'')
      else
        (case score_all E requirements resumes [] of
           Raised e \<Rightarrow> Raised e
         | Returned results \<Rightarrow>
             (case DataFrame (map Returned results) of
                Raised e \<Rightarrow> Raised e
              | Returned df \<Rightarrow>
                  (case total_score E df of
                     Raised e \<Rightarrow> Raised e
                   | Returned df' \<Rightarrow>
                       if results = []
                       then Raised (HTTPException 400 ''No resumes processed successfully.'')
                       else Returned df'))))"

section \<open>Vocabulary of the properties\<close>

text \<open>
  The outcome of a pipeline is a structured failure when it is an \<open>HTTPException\<close>, and a
  ScoreRecord when it is a returned mapping.
\<close>

fun is_http :: "'a result \<Rightarrow> bool" where
  "is_http (Raised (HTTPException status detail)) = True"
| "is_http _ = False"

text \<open>
  The resumes of a batch whose pipeline returns a ScoreRecord, in the order of the upload,
  and their records.
\<close>

definition succeeding :: "env \<Rightarrow> string \<Rightarrow> upload_file list \<Rightarrow> upload_file list" where
  "succeeding E requirements resumes =
     filter (\<lambda>resume. is_mapping (process_resume E resume requirements)) resumes"

definition score_records :: "env \<Rightarrow> string \<Rightarrow> upload_file list \<Rightarrow> parsed result list" where
  "score_records E requirements resumes =
     map (\<lambda>resume. process_resume E resume requirements) (succeeding E requirements resumes)"

text \<open>The records that the loop of \<^verbatim>\<open>app.py\<close> hands to the frame.\<close>

definition app_records :: "env \<Rightarrow> string \<Rightarrow> upload_file list \<Rightarrow> parsed result list" where
  "app_records E requirements resumes =
     (case score_all E requirements resumes [] of
        Returned results \<Rightarrow> map Returned results
      | Raised e \<Rightarrow> [])"

text \<open>
  The row that a record fills under a list of keys, and the labels of the report of
  \<open>generate_excel\<close>: the keys of the records, relabelled by the reply of the shortener.
\<close>

definition frame_row :: "string list \<Rightarrow> parsed result \<Rightarrow> cell option list" where
  "frame_row keys d = map (map_of (items d)) keys"

definition report_labels :: "env \<Rightarrow> parsed result list \<Rightarrow> cell list" where
  "report_labels E results =
     (case shorten_requirements E (map Str (all_keys results)) of
        Returned (PMap m) \<Rightarrow> map (relabel m) (map Str (all_keys results))
      | _ \<Rightarrow> map Str (all_keys results))"

text \<open>
  The cells of a row outside the columns labelled \<^verbatim>\<open>Candidate Name\<close>; a cell is numeric
  when it is an integer or missing (\<open>int_of\<close> above counts a missing cell as 0).
\<close>

definition score_cells :: "cell list \<Rightarrow> cell option list \<Rightarrow> cell option list" where
  "score_cells labels row = map snd (filter (\<lambda>cv. fst cv \<noteq> Str ''Candidate Name'') (zip labels row))"

definition numeric :: "cell option \<Rightarrow> bool" where
  "numeric c = (case c of None \<Rightarrow> True | Some (Num n) \<Rightarrow> True | Some (Str s) \<Rightarrow> False)"

definition wf_frame :: "data_frame \<Rightarrow> bool" where
  "wf_frame df = list_all (\<lambda>row. length row = length (columns df)) (rows df)"

text \<open>
  The score cells of the \<open>k\<close>-th record in the report of \<^verbatim>\<open>routes.py\<close>, under the labels after
  the relabelling, and in the report of \<^verbatim>\<open>app.py\<close>, under the keys themselves.
\<close>

definition routes_scores :: "env \<Rightarrow> string \<Rightarrow> upload_file list \<Rightarrow> nat \<Rightarrow> cell option list" where
  "routes_scores E requirements resumes k =
     score_cells (report_labels E (score_records E requirements resumes))
       (frame_row (all_keys (score_records E requirements resumes))
          (score_records E requirements resumes ! k))"

definition app_scores :: "env \<Rightarrow> string \<Rightarrow> upload_file list \<Rightarrow> nat \<Rightarrow> cell option list" where
  "app_scores E requirements resumes k =
     score_cells (map Str (all_keys (app_records E requirements resumes)))
       (frame_row (all_keys (app_records E requirements resumes))
          (app_records E requirements resumes ! k))"

text \<open>The rows of score cells of all records of a report, which are the rows that are summed.\<close>

definition routes_score_rows :: "env \<Rightarrow> string \<Rightarrow> upload_file list \<Rightarrow> cell option list list" where
  "routes_score_rows E requirements resumes =
     map (\<lambda>d. score_cells (report_labels E (score_records E requirements resumes))
                (frame_row (all_keys (score_records E requirements resumes)) d))
       (score_records E requirements resumes)"

definition app_score_rows :: "env \<Rightarrow> string \<Rightarrow> upload_file list \<Rightarrow> cell option list list" where
  "app_score_rows E requirements resumes =
     map (\<lambda>d. score_cells (map Str (all_keys (app_records E requirements resumes)))
                (frame_row (all_keys (app_records E requirements resumes)) d))
       (app_records E requirements resumes)"

text \<open>The exception of \<^verbatim>\<open>drop('Candidate Name', axis=1)\<close> on a frame without that label.\<close>

definition missing_name :: exc where
  "missing_name = KeyError ([CHR 0x22] @ ''['' @ [CHR 0x27] @ ''Candidate Name'' @ [CHR 0x27]
                              @ ''] not found in axis'' @ [CHR 0x22])"

section \<open>A small deployment\<close>

text \<open>
  Concrete collaborators, uploads and replies, on which the functions above are evaluated.
  The payloads of the resumes are short stand-ins for documents, which the readers open as
  the resumes below; \<open>blank_pdf\<close> is a PDF document whose page tree has no page. On every
  other payload the readers fail as the libraries do on bytes that are no document. The
  backend answers a scoring prompt with a fenced JSON document, and the parser knows the
  documents below.
\<close>

definition blank_pdf :: bytes where
  "blank_pdf = map of_char (join [CHR 0x0A]
     [''%PDF-1.4'',
      ''1 0 obj'', ''<< /Type /Catalog /Pages 2 0 R >>'', ''endobj'',
      ''2 0 obj'', ''<< /Type /Pages /Kids [] /Count 0 >>'', ''endobj'',
      ''xref'', ''0 3'',
      ''0000000000 65535 f '', ''0000000009 00000 n '', ''0000000058 00000 n '',
      ''trailer'', ''<< /Size 3 /Root 1 0 R >>'',
      ''startxref'', ''110'', ''%%EOF'', ''''])"

definition ann_json :: string where
  \<open>ann_json = ''{"Candidate Name": "Ann Lee", "Python": 5, "Degree": 3}''\<close>

definition bo_json :: string where
  \<open>bo_json = ''{"Candidate Name": "Bo Chen", "Python": 1, "Degree": 4}''\<close>

definition labels_json :: string where
  \<open>labels_json = ''{"Python": "Py", "Degree": "Deg"}''\<close>

definition demo_reply :: string where
  "demo_reply = [CHR 0x0A] @ ''Python, 5 years'' @ [CHR 0x0A, CHR 0x0A] @ ''Degree'' @ [CHR 0x0A]"

definition ann_text :: string where
  "ann_text = ''Ann Lee'' @ [CHR 0x0A, CHR 0x0A] @ ''Python, 6 years''"

definition demo_pdf_reader :: "bytes \<Rightarrow> pdf_outcome" where
  "demo_pdf_reader c =
     (if c = [] then PdfRaises (PdfReadError ''Cannot read an empty file'')
      else if c = [1] then PdfPages [Some ''Ann Lee'', None, Some ''Python, 6 years'']
      else if c = [2] then PdfPages [Some ''Bo Chen, Java, 2 years'']
      else if c = blank_pdf then PdfPages []
      else PdfRaises (PdfReadError ''EOF marker not found''))"

definition demo_docx_document :: "bytes \<Rightarrow> docx_outcome" where
  "demo_docx_document c =
     (if c = [3] then DocxParagraphs [''Cy Diaz'', ''Go, 4 years'']
      else DocxRaises (OtherError ''File is not a zip file''))"

definition demo_generate_content :: "prompt \<Rightarrow> string result" where
  "demo_generate_content p =
     (case p of
        CriteriaPrompt job_description \<Rightarrow>
          if job_description = ''Preheat the oven'' then Returned (''INVALID_INPUT'' @ [CHR 0x0A])
          else Returned demo_reply
      | RankPrompt req_ls resume \<Rightarrow>
          if resume = ann_text
          then Returned (fence_json @ [CHR 0x0A] @ ann_json @ [CHR 0x0A] @ fence)
          else if resume = ''Bo Chen, Java, 2 years''
          then Returned (fence_json @ [CHR 0x0A] @ bo_json @ [CHR 0x0A] @ fence)
          else Returned ''I cannot score this document.''
      | ShortenPrompt req_ls \<Rightarrow>
          if req_ls = [] then Returned ''{}''
          else Returned (fence_json @ [CHR 0x0A] @ labels_json @ [CHR 0x0A] @ fence)
      | AppCriteriaPrompt text \<Rightarrow>
          if text = ''Preheat the oven'' then Returned (''INVALID_INPUT'' @ [CHR 0x0A])
          else Returned demo_reply
      | AppScorePrompt requirements resume_text \<Rightarrow>
          if resume_text = ann_text
          then Returned (fence_json @ [CHR 0x0A] @ ann_json @ [CHR 0x0A] @ fence)
          else if resume_text = ''Bo Chen, Java, 2 years''
          then Returned (fence_json @ [CHR 0x0A] @ bo_json @ [CHR 0x0A] @ fence)
          else Returned ''I cannot score this document.'')"

definition demo_json_loads :: "string \<Rightarrow> parsed result" where
  "demo_json_loads s =
     (if s = [CHR 0x0A] @ ann_json @ [CHR 0x0A]
      then Returned (PMap [(''Candidate Name'', Str ''Ann Lee''), (''Python'', Num 5), (''Degree'', Num 3)])
      else if s = [CHR 0x0A] @ bo_json @ [CHR 0x0A]
      then Returned (PMap [(''Candidate Name'', Str ''Bo Chen''), (''Python'', Num 1), (''Degree'', Num 4)])
      else if s = [CHR 0x0A] @ labels_json @ [CHR 0x0A]
      then Returned (PMap [(''Python'', Str ''Py''), (''Degree'', Str ''Deg'')])
      else if s = ''{}'' then Returned (PMap [])
      else Raised (JSONDecodeError ''Expecting value: line 1 column 1 (char 0)''))"

definition demo_env :: env where
  "demo_env = \<lparr>pdf_reader = demo_pdf_reader, docx_document = demo_docx_document,
                generate_content = demo_generate_content, json_loads = demo_json_loads,
                wide_sum = (\<lambda>rs k. None)\<rparr>"

text \<open>
  The same deployment with a shortener that answers in prose, and with a backend that
  fails on every resume but one.
\<close>

definition prose_env :: env where
  "prose_env = demo_env\<lparr>generate_content :=
     (\<lambda>p. case p of ShortenPrompt req_ls \<Rightarrow> Returned ''Here are the labels you asked for.''
                    | _ \<Rightarrow> demo_generate_content p)\<rparr>"

definition flaky_env :: env where
  "flaky_env = demo_env\<lparr>generate_content :=
     (\<lambda>p. case p of
             RankPrompt req_ls resume \<Rightarrow>
               if resume = ann_text then demo_generate_content p
               else Raised (OtherError ''503 Service Unavailable'')
           | _ \<Rightarrow> demo_generate_content p)\<rparr>"

definition ann_pdf :: upload_file where
  "ann_pdf = \<lparr>filename = ''ann.pdf'', content_type = pdf_type, payload = [1]\<rparr>"

definition bo_pdf :: upload_file where
  "bo_pdf = \<lparr>filename = ''bo.pdf'', content_type = pdf_type, payload = [2]\<rparr>"

definition cy_docx :: upload_file where
  "cy_docx = \<lparr>filename = ''cy.docx'', content_type = docx_type, payload = [3]\<rparr>"

definition corrupt_docx :: upload_file where
  "corrupt_docx = \<lparr>filename = ''cv.docx'', content_type = docx_type, payload = [9]\<rparr>"

definition notes_txt :: upload_file where
  "notes_txt = \<lparr>filename = ''notes.txt'', content_type = ''text/plain'', payload = [7]\<rparr>"

definition big_payload :: bytes where
  "big_payload = replicate 5242881 0"

definition big_pdf :: upload_file where
  "big_pdf = \<lparr>filename = ''scan.pdf'', content_type = pdf_type, payload = big_payload\<rparr>"

definition big_txt :: upload_file where
  "big_txt = \<lparr>filename = ''dump.txt'', content_type = ''text/plain'', payload = big_payload\<rparr>"

text \<open>
  The records that the parser of the deployment returns, the reply of its shortener, a
  batch of three uploads and the two reports for it.
\<close>

definition cy_text :: string where
  "cy_text = ''Cy Diaz Go, 4 years''"

definition ann_record :: parsed where
  "ann_record = PMap [(''Candidate Name'', Str ''Ann Lee''), (''Python'', Num 5), (''Degree'', Num 3)]"

definition bo_record :: parsed where
  "bo_record = PMap [(''Candidate Name'', Str ''Bo Chen''), (''Python'', Num 1), (''Degree'', Num 4)]"

definition demo_colmap :: "(string \<times> cell) list" where
  "demo_colmap = [(''Python'', Str ''Py''), (''Degree'', Str ''Deg'')]"

definition demo_batch :: "upload_file list" where
  "demo_batch = [ann_pdf, notes_txt, bo_pdf]"

definition demo_report :: data_frame where
  "demo_report =
     \<lparr>columns = [Str ''Candidate Name'', Str ''Py'', Str ''Deg'', Str ''Total Score''],
      rows = [[Some (Str ''Ann Lee''), Some (Num 5), Some (Num 3), Some (Num 8)],
              [Some (Str ''Bo Chen''), Some (Num 1), Some (Num 4), Some (Num 5)]]\<rparr>"

definition app_report :: data_frame where
  "app_report =
     \<lparr>columns = [Str ''Candidate Name'', Str ''Python'', Str ''Degree'', Str ''Total Score''],
      rows = [[Some (Str ''Ann Lee''), Some (Num 5), Some (Num 3), Some (Num 8)],
              [Some (Str ''Bo Chen''), Some (Num 1), Some (Num 4), Some (Num 5)]]\<rparr>"

declare show_nat.simps [simp del]

section \<open>Properties of the document extractor\<close>

text \<open>
  C8. In the main package a PDF without pages and a PDF whose structure cannot be read
  both fail with status 422, and the two causes carry different messages: one names the
  missing text, the other the invalid structure. The claim fails on \<^verbatim>\<open>app.py\<close>: in both
  cases \<open>extract_text_from_pdf\<close> ends with the \<open>AttributeError\<close> of its first handler,
  which is an answer with status 500, the same for both causes.
\<close>

theorem C8_pdf_failures:
  "(pdf_reader E content = PdfPages [] \<longrightarrow>
      fst (PdfDoc_extract_text E content) = ErrorDict 422 ''PDF contains no readable text'')
   \<and> (pdf_reader E content' = PdfRaises (PdfReadError m) \<longrightarrow>
      fst (PdfDoc_extract_text E content') =
        ErrorDict 422 ''Invalid PDF structure - unable to read file'')
   \<and> (pdf_reader E content = PdfPages [] \<and> pdf_reader E content' = PdfRaises (PdfReadError m) \<longrightarrow>
      fst (PdfDoc_extract_text E content) \<noteq> fst (PdfDoc_extract_text E content'))
   \<and> (pdf_reader E content = PdfPages [] \<longrightarrow>
      fst (extract_text_from_pdf E content) = Raised no_PdfReadError
      \<and> http_status (fst (extract_text_from_pdf E content)) = 500)
   \<and> (pdf_reader E content' = PdfRaises (PdfReadError m) \<longrightarrow>
      fst (extract_text_from_pdf E content') = Raised no_PdfReadError
      \<and> http_status (fst (extract_text_from_pdf E content')) = 500)"
  by (simp add: PdfDoc_extract_text_def extract_text_from_pdf_def no_PdfReadError_def)

lemma length_blank_pdf: "length blank_pdf = 233"
  by (simp add: blank_pdf_def)

lemma blank_pdf_not_short: "length c \<le> 1 \<Longrightarrow> c \<noteq> blank_pdf" "length c \<le> 1 \<Longrightarrow> blank_pdf \<noteq> c"
  using length_blank_pdf by auto

lemma blank_pdf_pages: "demo_pdf_reader blank_pdf = PdfPages []"
  by (simp add: demo_pdf_reader_def blank_pdf_not_short)

text \<open>
  C8 at a PDF document without pages, and at a payload of one byte, which the reader of
  the deployment cannot read.
\<close>

theorem C8_pdf_failures_witness:
  "pdf_reader demo_env blank_pdf = PdfPages [] \<and>
   pdf_reader demo_env [0] = PdfRaises (PdfReadError ''EOF marker not found'') \<and>
   fst (PdfDoc_extract_text demo_env blank_pdf) = ErrorDict 422 ''PDF contains no readable text'' \<and>
   fst (PdfDoc_extract_text demo_env [0]) = ErrorDict 422 ''Invalid PDF structure - unable to read file'' \<and>
   fst (PdfDoc_extract_text demo_env blank_pdf) \<noteq> fst (PdfDoc_extract_text demo_env [0]) \<and>
   fst (extract_text_from_pdf demo_env blank_pdf) = Raised no_PdfReadError \<and>
   fst (extract_text_from_pdf demo_env [0]) = Raised no_PdfReadError \<and>
   http_status (fst (extract_text_from_pdf demo_env blank_pdf)) = 500 \<and>
   http_status (fst (extract_text_from_pdf demo_env [0])) = 500"
proof -
  have h1: "pdf_reader demo_env blank_pdf = PdfPages []"
    by (simp add: demo_env_def blank_pdf_pages)
  have h2: "pdf_reader demo_env [0] = PdfRaises (PdfReadError ''EOF marker not found'')"
    by (simp add: demo_env_def demo_pdf_reader_def blank_pdf_not_short)
  from h1 h2 C8_pdf_failures [of demo_env blank_pdf "[0]" "''EOF marker not found''"]
  show ?thesis by (simp add: no_PdfReadError_def)
qed

lemma big_payload_length: "length big_payload = 5242881"
  by (simp only: big_payload_def length_replicate)

lemma validate_size_big:
  "5 * 1024 * 1024 < length file_data \<Longrightarrow> BaseDoc file_data = Raised (ValueError ''File size exceeds 5MB limit'')"
  by (simp add: BaseDoc_def validate_size_def)

lemma validate_size_small:
  "length file_data \<le> 5 * 1024 * 1024 \<Longrightarrow> BaseDoc file_data = Returned file_data"
  by (simp add: BaseDoc_def validate_size_def)

text \<open>
  C4. An upload of more than 5 MB never reaches the parsing libraries: the log of library
  calls is empty. In the main package the size check raises \<open>ValueError\<close>, which no caller
  turns into a structured failure: the extract-criteria route answers 500 and the
  orchestrator moves the exception to \<open>final_results\<close>. The endpoint of \<^verbatim>\<open>app.py\<close> answers
  with the structured failure 400.
\<close>

theorem C4_oversized_upload:
  assumes "5 * 1024 * 1024 < length (payload file)"
  shows "DocProcessor_process E file = (Raised (ValueError ''File size exceeds 5MB limit''), [])
    \<and> routes_extract_criteria E file = Raised (ValueError ''File size exceeds 5MB limit'')
    \<and> http_status (routes_extract_criteria E file) = 500
    \<and> process_resume E file requirements = Raised (ValueError ''File size exceeds 5MB limit'')
    \<and> fst (fan_in (gather E requirements [file]) [] []) = [Raised (ValueError ''File size exceeds 5MB limit'')]
    \<and> extract_criteria_endpoint E file = (Raised (HTTPException 400 ''File size exceeds 5MB limit''), [])"
proof -
  from assms have p: "DocProcessor_process E file = (Raised (ValueError ''File size exceeds 5MB limit''), [])"
    by (simp add: DocProcessor_process_def validate_size_big)
  then have r: "routes_extract_criteria E file = Raised (ValueError ''File size exceeds 5MB limit'')"
    by (simp add: routes_extract_criteria_def)
  from p have q: "process_resume E file requirements = Raised (ValueError ''File size exceeds 5MB limit'')"
    by (simp add: process_resume_def)
  from assms have e: "extract_criteria_endpoint E file =
      (Raised (HTTPException 400 ''File size exceeds 5MB limit''), [])"
    by (simp add: extract_criteria_endpoint_def)
  from p r q e show ?thesis
    by (simp add: gather_def)
qed

text \<open>C4 at a PDF upload of 5 MB and one byte.\<close>

theorem C4_oversized_upload_witness:
  "5 * 1024 * 1024 < length (payload big_pdf)
    \<and> DocProcessor_process demo_env big_pdf = (Raised (ValueError ''File size exceeds 5MB limit''), [])
    \<and> http_status (routes_extract_criteria demo_env big_pdf) = 500
    \<and> fst (fan_in (gather demo_env ''Python'' [big_pdf]) [] []) =
        [Raised (ValueError ''File size exceeds 5MB limit'')]
    \<and> extract_criteria_endpoint demo_env big_pdf =
        (Raised (HTTPException 400 ''File size exceeds 5MB limit''), [])"
proof -
  have h: "5 * 1024 * 1024 < length (payload big_pdf)"
    by (simp add: big_pdf_def big_payload_length)
  from h C4_oversized_upload [OF h, of demo_env "''Python''"] show ?thesis
    by simp
qed

text \<open>
  C7, as stated, fails: the endpoint of \<^verbatim>\<open>app.py\<close> rejects a text file with status 400, not
  422, and \<open>DocProcessor.process\<close> checks the size before the type, so that an oversized
  text file raises \<open>ValueError\<close>.
\<close>

theorem C7_counterexample:
  "content_type notes_txt \<noteq> pdf_type \<and> content_type notes_txt \<noteq> docx_type
   \<and> fst (extract_criteria_endpoint demo_env notes_txt) =
       Raised (HTTPException 400 ''Unsupported file type. Upload PDF or DOCX.'')
   \<and> content_type big_txt \<noteq> pdf_type \<and> content_type big_txt \<noteq> docx_type
   \<and> fst (DocProcessor_process demo_env big_txt) = Raised (ValueError ''File size exceeds 5MB limit'')"
proof -
  have "5 * 1024 * 1024 < length (payload big_txt)"
    by (simp add: big_txt_def big_payload_length)
  then have "fst (DocProcessor_process demo_env big_txt) = Raised (ValueError ''File size exceeds 5MB limit'')"
    by (simp add: DocProcessor_process_def validate_size_big)
  moreover have "content_type big_txt \<noteq> pdf_type \<and> content_type big_txt \<noteq> docx_type"
    by (simp add: big_txt_def pdf_type_def docx_type_def)
  moreover have "content_type notes_txt \<noteq> pdf_type \<and> content_type notes_txt \<noteq> docx_type
     \<and> fst (extract_criteria_endpoint demo_env notes_txt) =
       Raised (HTTPException 400 ''Unsupported file type. Upload PDF or DOCX.'')"
    by (simp add: extract_criteria_endpoint_def supported_def notes_txt_def pdf_type_def docx_type_def)
  ultimately show ?thesis by simp
qed

lemma fan_in_filter:
  "fan_in rs final_results errors =
     (final_results @ filter (\<lambda>r. \<not> is_http r) rs,
      errors @ concat (map (\<lambda>r. case r of Raised (HTTPException s d) \<Rightarrow> [d] | _ \<Rightarrow> []) rs))"
  by (induction rs final_results errors rule: fan_in.induct) simp_all

text \<open>
  C7, amended. For a declared content type that is neither PDF nor DOCX and a payload of at
  most 5 MB, \<open>DocProcessor.process\<close> returns the structured failure 422 with the message
  \<^verbatim>\<open>Unsupported file type. Upload PDF or DOCX.\<close> without calling a parsing library. The
  extract-criteria route of the main package raises it as \<open>HTTPException\<close> 422. So does
  \<open>process_resume\<close>, and the loop of the rank-resumes route moves that exception to
  \<open>errors\<close>: the upload adds its message there and nothing to \<open>final_results\<close>, whatever
  stands before and after it in the batch. The extract-criteria endpoint of \<^verbatim>\<open>app.py\<close>
  rejects the upload with status 400 and the same message, and the loop of its rank-resumes
  endpoint skips it.
\<close>

theorem C7_unsupported_type:
  assumes "content_type file \<noteq> pdf_type" and "content_type file \<noteq> docx_type"
    and "length (payload file) \<le> 5 * 1024 * 1024"
  shows "DocProcessor_process E file =
           (Returned (ErrorDict 422 ''Unsupported file type. Upload PDF or DOCX.''), [])
    \<and> routes_extract_criteria E file =
           Raised (HTTPException 422 ''Unsupported file type. Upload PDF or DOCX.'')
    \<and> process_resume E file requirements =
           Raised (HTTPException 422 ''Unsupported file type. Upload PDF or DOCX.'')
    \<and> fst (fan_in (gather E requirements (before @ file # after)) [] []) =
           fst (fan_in (gather E requirements (before @ after)) [] [])
    \<and> ''Unsupported file type. Upload PDF or DOCX.''
           \<in> set (snd (fan_in (gather E requirements (before @ file # after)) [] []))
    \<and> extract_criteria_endpoint E file =
           (Raised (HTTPException 400 ''Unsupported file type. Upload PDF or DOCX.''), [])
    \<and> score_all E requirements (file # rest) results = score_all E requirements rest results"
proof -
  from assms have p: "DocProcessor_process E file =
      (Returned (ErrorDict 422 ''Unsupported file type. Upload PDF or DOCX.''), [])"
    by (simp add: DocProcessor_process_def validate_size_small)
  then have r: "routes_extract_criteria E file =
      Raised (HTTPException 422 ''Unsupported file type. Upload PDF or DOCX.'')"
    by (simp add: routes_extract_criteria_def)
  from p have q: "process_resume E file requirements =
      Raised (HTTPException 422 ''Unsupported file type. Upload PDF or DOCX.'')"
    by (simp add: process_resume_def)
  from q have f: "fst (fan_in (gather E requirements (before @ file # after)) [] []) =
      fst (fan_in (gather E requirements (before @ after)) [] [])"
    by (simp add: fan_in_filter gather_def)
  from q have g: "''Unsupported file type. Upload PDF or DOCX.''
      \<in> set (snd (fan_in (gather E requirements (before @ file # after)) [] []))"
    by (simp add: fan_in_filter gather_def)
  from assms have e: "extract_criteria_endpoint E file =
      (Raised (HTTPException 400 ''Unsupported file type. Upload PDF or DOCX.''), [])"
    by (simp add: extract_criteria_endpoint_def supported_def)
  from assms have s: "score_all E requirements (file # rest) results = score_all E requirements rest results"
    by (simp add: supported_def)
  from p r q f g e s show ?thesis by simp
qed

text \<open>The amended C7 at a small text file.\<close>

theorem C7_unsupported_type_witness:
  "content_type notes_txt \<noteq> pdf_type \<and> content_type notes_txt \<noteq> docx_type
   \<and> length (payload notes_txt) \<le> 5 * 1024 * 1024
   \<and> DocProcessor_process demo_env notes_txt =
       (Returned (ErrorDict 422 ''Unsupported file type. Upload PDF or DOCX.''), [])
   \<and> routes_extract_criteria demo_env notes_txt =
       Raised (HTTPException 422 ''Unsupported file type. Upload PDF or DOCX.'')
   \<and> process_resume demo_env notes_txt ''Python'' =
       Raised (HTTPException 422 ''Unsupported file type. Upload PDF or DOCX.'')
   \<and> fan_in (gather demo_env ''Python'' [notes_txt]) [] [] =
       ([], [''Unsupported file type. Upload PDF or DOCX.''])
   \<and> extract_criteria_endpoint demo_env notes_txt =
       (Raised (HTTPException 400 ''Unsupported file type. Upload PDF or DOCX.''), [])
   \<and> score_all demo_env ''Python'' [notes_txt] [] = Returned []"
proof -
  have h1: "content_type notes_txt \<noteq> pdf_type" and h2: "content_type notes_txt \<noteq> docx_type"
    and h3: "length (payload notes_txt) \<le> 5 * 1024 * 1024"
    by (simp_all add: notes_txt_def pdf_type_def docx_type_def)
  from h1 h2 h3 C7_unsupported_type [OF h1 h2 h3, of demo_env "''Python''" "[]" "[]" "[]" "[]"]
  show ?thesis by (simp add: gather_def)
qed

section \<open>Properties of the criteria extractor\<close>

lemma join_Cons_head: "join sep ((c # l) # ls) = c # join sep (l # ls)"
  by (cases ls) simp_all

lemma join_split_nl: "join [CHR 0x0A] (split_nl s) = s"
proof (induction s)
  case Nil
  then show ?case by simp
next
  case (Cons c cs)
  then show ?case
    by (cases "split_nl cs") (auto simp: join_Cons_head split: list.splits)
qed

lemma split_nl_lines: "list_all (\<lambda>l. CHR 0x0A \<notin> set l) (split_nl s)"
  by (induction s) (auto split: list.splits)

lemma length_split_nl: "length (split_nl s) = Suc (count_list s (CHR 0x0A))"
  by (induction s) (auto split: list.splits)

text \<open>
  C6, as stated, fails on \<^verbatim>\<open>app.py\<close>: its extractor has no test for a sentinel, and for a
  reply that is the sentinel it returns the sentinel as the only requirement.
\<close>

theorem C6_counterexample:
  "generate_content demo_env (AppCriteriaPrompt ''Preheat the oven'') =
     Returned (''INVALID_INPUT'' @ [CHR 0x0A])
   \<and> strip (''INVALID_INPUT'' @ [CHR 0x0A]) = ''INVALID_INPUT''
   \<and> extract_criteria_with_gemini demo_env ''Preheat the oven'' = Returned [''INVALID_INPUT'']"
  by (simp add: extract_criteria_with_gemini_def demo_env_def demo_generate_content_def
      strip_def is_space_def)

text \<open>
  C6, amended. When the reply of the backend is the sentinel, that is, when its stripped
  text equals \<^verbatim>\<open>INVALID_INPUT\<close>, \<open>extract_criteria\<close> of the main package returns the failure
  with status 400 and the message \<^verbatim>\<open>Not a valid Job Description\<close>, and no list of
  requirements; \<open>extract_criteria_with_gemini\<close> of \<^verbatim>\<open>app.py\<close> returns the list whose only
  requirement is the sentinel.
\<close>

theorem C6_sentinel_rejected:
  "(generate_content E (CriteriaPrompt job_description) = Returned text
      \<and> strip text = ''INVALID_INPUT'' \<longrightarrow>
      models_extract_criteria E job_description = CriteriaError ''Not a valid Job Description'' 400
      \<and> (\<forall>requirements code. models_extract_criteria E job_description \<noteq> Requirements requirements code))
   \<and> (generate_content E (AppCriteriaPrompt job_description) = Returned text'
      \<and> strip text' = ''INVALID_INPUT'' \<longrightarrow>
      extract_criteria_with_gemini E job_description = Returned [''INVALID_INPUT''])"
  by (simp add: models_extract_criteria_def extract_criteria_with_gemini_def)

text \<open>
  The amended C6 at a recipe, for which the backend of the deployment answers with the
  sentinel and a line feed.
\<close>

theorem C6_sentinel_rejected_witness:
  "generate_content demo_env (CriteriaPrompt ''Preheat the oven'') = Returned (''INVALID_INPUT'' @ [CHR 0x0A])
   \<and> generate_content demo_env (AppCriteriaPrompt ''Preheat the oven'') =
       Returned (''INVALID_INPUT'' @ [CHR 0x0A])
   \<and> strip (''INVALID_INPUT'' @ [CHR 0x0A]) = ''INVALID_INPUT''
   \<and> models_extract_criteria demo_env ''Preheat the oven'' = CriteriaError ''Not a valid Job Description'' 400
   \<and> extract_criteria_with_gemini demo_env ''Preheat the oven'' = Returned [''INVALID_INPUT'']"
proof -
  have h1: "generate_content demo_env (CriteriaPrompt ''Preheat the oven'') = Returned (''INVALID_INPUT'' @ [CHR 0x0A])"
    and h3: "generate_content demo_env (AppCriteriaPrompt ''Preheat the oven'') =
       Returned (''INVALID_INPUT'' @ [CHR 0x0A])"
    by (simp_all add: demo_env_def demo_generate_content_def)
  have h2: "strip (''INVALID_INPUT'' @ [CHR 0x0A]) = ''INVALID_INPUT''"
    by (simp add: strip_def is_space_def)
  from h1 h2 h3
    C6_sentinel_rejected [of demo_env "''Preheat the oven''" "''INVALID_INPUT'' @ [CHR 0x0A]"
      "''INVALID_INPUT'' @ [CHR 0x0A]"]
  show ?thesis by simp
qed

lemma strip_demo_reply: "strip demo_reply = ''Python, 5 years'' @ [CHR 0x0A, CHR 0x0A] @ ''Degree''"
  by (simp add: strip_def is_space_def demo_reply_def)

text \<open>
  C9, as stated, fails: the reply is stripped before it is split, so that the blank lines at
  its two ends are not requirements. The reply below has five lines, three of them blank;
  both extractors return three requirements.
\<close>

theorem C9_counterexample:
  "generate_content demo_env (CriteriaPrompt ''Backend engineer'') = Returned demo_reply
   \<and> strip demo_reply \<noteq> ''INVALID_INPUT''
   \<and> split_nl demo_reply = ['''', ''Python, 5 years'', '''', ''Degree'', '''']
   \<and> models_extract_criteria demo_env ''Backend engineer'' = Requirements [''Python, 5 years'', '''', ''Degree''] 200
   \<and> models_extract_criteria demo_env ''Backend engineer'' \<noteq> Requirements (split_nl demo_reply) 200
   \<and> extract_criteria_with_gemini demo_env ''Backend engineer'' = Returned [''Python, 5 years'', '''', ''Degree'']"
  by (simp add: models_extract_criteria_def extract_criteria_with_gemini_def demo_env_def
      demo_generate_content_def strip_demo_reply [unfolded demo_reply_def, simplified] demo_reply_def)

text \<open>
  C9, amended. For a reply that is not the sentinel, the requirements are the stripped reply
  split at every line feed: joining them with line feeds gives the stripped reply back, no
  requirement contains a line feed, and there is one requirement more than there are line
  feeds, so that every blank line inside the stripped reply is a requirement and no line is
  filtered out. The extractor of \<^verbatim>\<open>app.py\<close> does the same for every reply.
\<close>

theorem C9_split_of_stripped_reply:
  "(generate_content E (CriteriaPrompt job_description) = Returned text \<and> strip text \<noteq> ''INVALID_INPUT'' \<longrightarrow>
      models_extract_criteria E job_description = Requirements (split_nl (strip text)) 200)
   \<and> (generate_content E (AppCriteriaPrompt job_description) = Returned text \<longrightarrow>
      extract_criteria_with_gemini E job_description = Returned (split_nl (strip text)))
   \<and> join [CHR 0x0A] (split_nl (strip text)) = strip text
   \<and> list_all (\<lambda>line. CHR 0x0A \<notin> set line) (split_nl (strip text))
   \<and> length (split_nl (strip text)) = Suc (count_list (strip text) (CHR 0x0A))"
  by (simp add: models_extract_criteria_def extract_criteria_with_gemini_def join_split_nl
      split_nl_lines length_split_nl)

text \<open>The amended C9 at the reply of the deployment.\<close>

theorem C9_split_of_stripped_reply_witness:
  "generate_content demo_env (CriteriaPrompt ''Backend engineer'') = Returned demo_reply
   \<and> strip demo_reply \<noteq> ''INVALID_INPUT''
   \<and> generate_content demo_env (AppCriteriaPrompt ''Backend engineer'') = Returned demo_reply
   \<and> models_extract_criteria demo_env ''Backend engineer'' = Requirements (split_nl (strip demo_reply)) 200
   \<and> extract_criteria_with_gemini demo_env ''Backend engineer'' = Returned (split_nl (strip demo_reply))
   \<and> split_nl (strip demo_reply) = [''Python, 5 years'', '''', ''Degree'']"
proof -
  have h1: "generate_content demo_env (CriteriaPrompt ''Backend engineer'') = Returned demo_reply"
    and h3: "generate_content demo_env (AppCriteriaPrompt ''Backend engineer'') = Returned demo_reply"
    by (simp_all add: demo_env_def demo_generate_content_def demo_reply_def)
  have h2: "strip demo_reply \<noteq> ''INVALID_INPUT''"
    by (simp add: strip_demo_reply)
  have s: "split_nl (strip demo_reply) = [''Python, 5 years'', '''', ''Degree'']"
    by (simp add: strip_demo_reply)
  from h1 h2 h3 s C9_split_of_stripped_reply [of demo_env "''Backend engineer''" demo_reply]
  show ?thesis by simp
qed

section \<open>The report builder\<close>

text \<open>
  The fan-in keeps the order of the outcomes: \<open>final_results\<close> are the outcomes that are
  not \<open>HTTPException\<close>s, \<open>errors\<close> the details of those that are.
\<close>

lemma sum_from_numeric:
  "list_all numeric xs \<Longrightarrow>
   sum_from (Num a) (map fillna xs) = Returned (Num (a + sum_list (map int_of xs)))"
proof (induction xs arbitrary: a)
  case Nil
  then show ?case by simp
next
  case (Cons x xs)
  then show ?case
    by (cases x) (auto simp: numeric_def int_of_def fillna_def split: cell.splits)
qed

lemma row_sum_numeric:
  assumes "list_all numeric row"
  shows "row_sum row = Returned (Num (sum_list (map int_of row)))"
proof (cases row)
  case Nil
  then show ?thesis by (simp add: row_sum_def)
next
  case (Cons x xs)
  with assms have "list_all numeric xs" and nx: "numeric x" by simp_all
  from nx obtain a where a: "fillna x = Num a" "int_of x = a"
    by (cases x) (auto simp: numeric_def fillna_def int_of_def split: cell.splits)
  show ?thesis
    using sum_from_numeric [OF \<open>list_all numeric xs\<close>, of a] a Cons
    by (simp add: row_sum_def)
qed

lemma sum_rows_length: "sum_rows rs = Returned ts \<Longrightarrow> length ts = length rs"
  by (induction rs arbitrary: ts) (auto split: result.splits)

lemma sum_rows_nth:
  "sum_rows rs = Returned ts \<Longrightarrow> k < length rs \<Longrightarrow> row_sum (rs ! k) = Returned (ts ! k)"
proof (induction rs arbitrary: ts k)
  case Nil
  then show ?case by simp
next
  case (Cons r rs)
  then show ?case
    by (cases k) (auto split: result.splits)
qed

lemma sum_rows_numeric:
  "list_all (list_all numeric) rs \<Longrightarrow> \<exists>ts. sum_rows rs = Returned ts"
  by (induction rs) (auto simp: row_sum_numeric)

lemma collect_length: "collect xs = Returned ts \<Longrightarrow> length ts = length xs"
  by (induction xs arbitrary: ts rule: collect.induct) (auto split: result.splits)

lemma row_totals_length: "row_totals E rs = Returned ts \<Longrightarrow> length ts = length rs"
  by (auto simp: row_totals_def split: if_splits dest: sum_rows_length collect_length)

lemma row_totals_wraps:
  "row_totals E [[Some (Num 9223372036854775807), Some (Num 1)]] = Returned [Num (- 9223372036854775808)]"
  by (simp add: row_totals_def exact_rows_def magnitude_def int_of_def int64_rows_def is_int64_def
      wrap64_def)

lemma row_totals_exact: "exact_rows rs \<Longrightarrow> row_totals E rs = sum_rows rs"
  by (simp add: row_totals_def)

lemma wf_frame_nth: "wf_frame df \<Longrightarrow> k < length (rows df) \<Longrightarrow> length (rows df ! k) = length (columns df)"
  by (simp add: wf_frame_def list_all_length)

lemma set_column_length:
  "length values = length (rows df) \<Longrightarrow> length (rows (set_column l values df)) = length (rows df)"
  by (simp add: set_column_def)

lemma set_column_has_label: "l \<in> set (columns (set_column l values df))"
  by (simp add: set_column_def)


lemma set_column_new:
  assumes len: "length values = length (rows df)" and wf: "wf_frame df"
    and k: "k < length (rows df)" and j: "j < length (columns (set_column l values df))"
    and lab: "columns (set_column l values df) ! j = l"
  shows "rows (set_column l values df) ! k ! j = Some (values ! k)"
proof (cases "l \<in> set (columns df)")
  case True
  with j lab have j': "j < length (columns df)" and lab': "columns df ! j = l"
    by (simp_all add: set_column_def)
  from wf k have lr: "length (rows df ! k) = length (columns df)"
    by (rule wf_frame_nth)
  from True have "rows (set_column l values df) ! k =
      map2 (\<lambda>c x. if c = l then Some (values ! k) else x) (columns df) (rows df ! k)"
    using k len by (simp add: set_column_def)
  with j' lab' lr show ?thesis by simp
next
  case False
  with j have j': "j < Suc (length (columns df))"
    by (simp add: set_column_def)
  have "j = length (columns df)"
  proof (rule ccontr)
    assume "j \<noteq> length (columns df)"
    with j' have jl: "j < length (columns df)" by simp
    with False lab have "columns df ! j = l"
      by (simp add: set_column_def nth_append)
    with jl False show False by (metis nth_mem)
  qed
  moreover from wf k have "length (rows df ! k) = length (columns df)"
    by (rule wf_frame_nth)
  moreover from False have "rows (set_column l values df) ! k = rows df ! k @ [Some (values ! k)]"
    using k len by (simp add: set_column_def)
  ultimately show ?thesis by (metis nth_append_length)
qed


lemma drop_column_rows:
  "(\<lambda>row. map snd (filter (\<lambda>cv. fst cv \<noteq> Str ''Candidate Name'') (zip labels row))) = score_cells labels"
  by (simp add: score_cells_def fun_eq_iff)

lemma total_score_Returned:
  assumes "total_score E df = Returned sheet"
  obtains totals where "Str ''Candidate Name'' \<in> set (columns df)"
    and "row_totals E (map (score_cells (columns df)) (rows df)) = Returned totals"
    and "length totals = length (rows df)"
    and "sheet = set_column (Str ''Total Score'') totals df"
proof -
  from assms have cn: "Str ''Candidate Name'' \<in> set (columns df)"
    by (auto simp: total_score_def drop_column_def split: result.splits if_splits)
  with assms obtain totals where
    t: "row_totals E (map (score_cells (columns df)) (rows df)) = Returned totals"
    and sh: "sheet = set_column (Str ''Total Score'') totals df"
    by (auto simp: total_score_def drop_column_def sum_axis1_def drop_column_rows split: result.splits)
  from t have "length totals = length (rows df)"
    by (auto dest: row_totals_length)
  with cn t sh that show thesis by blast
qed

lemma total_score_exists:
  assumes "Str ''Candidate Name'' \<in> set (columns df)"
    and "exact_rows (map (score_cells (columns df)) (rows df))"
    and "list_all (\<lambda>row. list_all numeric (score_cells (columns df) row)) (rows df)"
  shows "\<exists>sheet. total_score E df = Returned sheet"
proof -
  from assms(3) have "list_all (list_all numeric) (map (score_cells (columns df)) (rows df))"
    by (simp add: list_all_iff)
  then obtain ts where "sum_rows (map (score_cells (columns df)) (rows df)) = Returned ts"
    using sum_rows_numeric by blast
  with assms(1,2) show ?thesis
    by (simp add: total_score_def drop_column_def sum_axis1_def drop_column_rows row_totals_exact)
qed

lemma total_score_rows:
  assumes "total_score E df = Returned sheet"
  shows "length (rows sheet) = length (rows df)"
proof -
  from assms obtain totals where "length totals = length (rows df)"
    and "sheet = set_column (Str ''Total Score'') totals df"
    by (rule total_score_Returned)
  then show ?thesis by (simp add: set_column_length)
qed

lemma total_score_label:
  assumes "total_score E df = Returned sheet"
  shows "Str ''Total Score'' \<in> set (columns sheet)"
proof -
  from assms obtain totals where "sheet = set_column (Str ''Total Score'') totals df"
    by (rule total_score_Returned)
  then show ?thesis by (simp add: set_column_has_label)
qed

lemma total_score_total:
  assumes ts: "total_score E df = Returned sheet" and wf: "wf_frame df"
    and k: "k < length (rows df)" and j: "j < length (columns sheet)"
    and lab: "columns sheet ! j = Str ''Total Score''"
    and ex: "exact_rows (map (score_cells (columns df)) (rows df))"
    and num: "list_all numeric (score_cells (columns df) (rows df ! k))"
  shows "rows sheet ! k ! j = Some (Num (sum_list (map int_of (score_cells (columns df) (rows df ! k)))))"
proof -
  from ts obtain totals where
    t: "row_totals E (map (score_cells (columns df)) (rows df)) = Returned totals"
    and len: "length totals = length (rows df)"
    and sh: "sheet = set_column (Str ''Total Score'') totals df"
    by (rule total_score_Returned)
  from t ex have s: "sum_rows (map (score_cells (columns df)) (rows df)) = Returned totals"
    by (simp add: row_totals_exact)
  from s k have "row_sum (score_cells (columns df) (rows df ! k)) = Returned (totals ! k)"
    by (auto dest: sum_rows_nth [where k = k])
  with num have "totals ! k = Num (sum_list (map int_of (score_cells (columns df) (rows df ! k))))"
    by (simp add: row_sum_numeric)
  moreover have "rows sheet ! k ! j = Some (totals ! k)"
    using set_column_new [OF len wf k] j lab unfolding sh by simp
  ultimately show ?thesis by simp
qed


lemma DataFrame_Returned:
  assumes "DataFrame data = Returned df"
  shows "list_all is_mapping data"
    and "df = \<lparr>columns = map Str (all_keys data), rows = map (frame_row (all_keys data)) data\<rparr>"
  using assms by (auto simp: DataFrame_def frame_row_def split: if_splits)

lemma DataFrame_mappings:
  "list_all is_mapping data \<Longrightarrow>
   DataFrame data = Returned \<lparr>columns = map Str (all_keys data), rows = map (frame_row (all_keys data)) data\<rparr>"
  by (simp add: DataFrame_def frame_row_def)

lemma wf_frame_rows:
  "length cols = length keys \<Longrightarrow> wf_frame \<lparr>columns = cols, rows = map (frame_row keys) data\<rparr>"
  by (simp add: wf_frame_def list_all_iff frame_row_def)

lemma length_report_labels: "length (report_labels E results) = length (all_keys results)"
  by (simp add: report_labels_def split: result.splits parsed.splits)

lemma all_keys_Nil: "all_keys [] = []"
  by (simp add: all_keys_def)

lemma generate_excel_Returned:
  assumes "generate_excel E results = Returned sheet"
  shows "list_all is_mapping results"
    and "total_score E \<lparr>columns = report_labels E results,
           rows = map (frame_row (all_keys results)) results\<rparr> = Returned sheet"
proof -
  from assms obtain df where df: "DataFrame results = Returned df"
    by (auto simp: generate_excel_def split: result.splits)
  then show m: "list_all is_mapping results"
    by (rule DataFrame_Returned)
  from df have dfeq: "df = \<lparr>columns = map Str (all_keys results),
      rows = map (frame_row (all_keys results)) results\<rparr>"
    by (rule DataFrame_Returned)
  from assms df obtain colmap df' where
    sh: "shorten_requirements E (columns df) = Returned colmap"
    and rn: "rename colmap df = Returned df'"
    and ts: "total_score E df' = Returned sheet"
    by (auto simp: generate_excel_def split: result.splits)
  show "total_score E \<lparr>columns = report_labels E results,
           rows = map (frame_row (all_keys results)) results\<rparr> = Returned sheet"
  proof (cases colmap)
    case (PMap m)
    with rn sh dfeq ts show ?thesis
      by (auto simp: report_labels_def)
  next
    case PList
    with rn have "df' = df" and "columns df = []"
      by (auto split: if_splits)
    with ts show ?thesis
      by (auto simp: total_score_def drop_column_def split: result.splits if_splits)
  next
    case PScalar
    with rn show ?thesis by simp
  qed
qed

lemma generate_excel_mapping:
  assumes "list_all is_mapping results"
    and "shorten_requirements E (map Str (all_keys results)) = Returned (PMap m)"
  shows "generate_excel E results =
     total_score E \<lparr>columns = report_labels E results, rows = map (frame_row (all_keys results)) results\<rparr>"
  using assms by (simp add: generate_excel_def DataFrame_mappings report_labels_def)

lemma is_mapping_not_http: "is_mapping r \<Longrightarrow> \<not> is_http r"
  by (cases r rule: is_mapping.cases) simp_all

lemma filter_all_mappings:
  "list_all is_mapping (filter (\<lambda>r. \<not> is_http r) rs) \<Longrightarrow>
   filter (\<lambda>r. \<not> is_http r) rs = filter is_mapping rs"
  by (induction rs) (auto simp: is_mapping_not_http)

lemma filter_mappings_gather:
  "filter is_mapping (gather E requirements resumes) = score_records E requirements resumes"
  by (simp add: gather_def score_records_def succeeding_def filter_map comp_def)

lemma final_results_records:
  assumes "list_all is_mapping (fst (fan_in (gather E requirements resumes) [] []))"
  shows "fst (fan_in (gather E requirements resumes) [] []) = score_records E requirements resumes"
proof -
  have "fst (fan_in (gather E requirements resumes) [] []) =
      filter (\<lambda>r. \<not> is_http r) (gather E requirements resumes)"
    by (simp add: fan_in_filter)
  also from assms have "\<dots> = filter is_mapping (gather E requirements resumes)"
    by (intro filter_all_mappings) (simp add: fan_in_filter)
  also have "\<dots> = score_records E requirements resumes"
    by (rule filter_mappings_gather)
  finally show ?thesis .
qed

lemma score_records_mappings: "list_all is_mapping (score_records E requirements resumes)"
  by (simp add: score_records_def succeeding_def list_all_iff)

lemma final_results_structured:
  assumes "list_all (\<lambda>r. is_mapping r \<or> is_http r) (gather E requirements resumes)"
  shows "fst (fan_in (gather E requirements resumes) [] []) = score_records E requirements resumes"
proof (rule final_results_records)
  from assms show "list_all is_mapping (fst (fan_in (gather E requirements resumes) [] []))"
    by (auto simp: fan_in_filter list_all_iff)
qed

lemma routes_rank_resumes_Returned:
  assumes "routes_rank_resumes E requirements resumes = Returned sheet"
  shows "total_score E \<lparr>columns = report_labels E (score_records E requirements resumes),
           rows = map (frame_row (all_keys (score_records E requirements resumes)))
                    (score_records E requirements resumes)\<rparr> = Returned sheet"
proof -
  let ?fr = "fst (fan_in (gather E requirements resumes) [] [])"
  from assms have ge: "generate_excel E ?fr = Returned sheet"
    by (simp add: routes_rank_resumes_def)
  then have "list_all is_mapping ?fr"
    by (rule generate_excel_Returned)
  then have "?fr = score_records E requirements resumes"
    by (rule final_results_records)
  with generate_excel_Returned(2) [OF ge] show ?thesis by simp
qed

lemma score_all_length:
  "score_all E requirements resumes results = Returned rs \<Longrightarrow>
   length rs = length results + length (filter supported resumes)"
proof (induction resumes arbitrary: results)
  case Nil
  then show ?case by simp
next
  case (Cons resume rest)
  show ?case
  proof (cases "supported resume")
    case False
    with Cons show ?thesis by simp
  next
    case True
    with Cons.prems obtain scores where
      "score_all E requirements rest (results @ [scores]) = Returned rs"
      by (auto split: result.splits)
    from Cons.IH [OF this] True show ?thesis by simp
  qed
qed

lemma app_rank_resumes_Returned:
  assumes "app_rank_resumes E requirements resumes = Returned sheet"
  shows "total_score E \<lparr>columns = map Str (all_keys (app_records E requirements resumes)),
           rows = map (frame_row (all_keys (app_records E requirements resumes)))
                    (app_records E requirements resumes)\<rparr> = Returned sheet"
    and "length (app_records E requirements resumes) = length (filter supported resumes)"
proof -
  from assms obtain results where sa: "score_all E requirements resumes [] = Returned results"
    by (auto simp: app_rank_resumes_def split: if_splits result.splits)
  then have ar: "app_records E requirements resumes = map Returned results"
    by (simp add: app_records_def)
  from assms sa obtain df where df: "DataFrame (map Returned results) = Returned df"
    and ts: "total_score E df = Returned sheet"
    by (auto simp: app_rank_resumes_def split: if_splits result.splits)
  from DataFrame_Returned(2) [OF df] ts ar
  show "total_score E \<lparr>columns = map Str (all_keys (app_records E requirements resumes)),
           rows = map (frame_row (all_keys (app_records E requirements resumes)))
                    (app_records E requirements resumes)\<rparr> = Returned sheet"
    by simp
  from score_all_length [OF sa] ar
  show "length (app_records E requirements resumes) = length (filter supported resumes)"
    by simp
qed

lemma length_score_records:
  "length (score_records E requirements resumes) = length (succeeding E requirements resumes)"
  by (simp add: score_records_def)

lemma total_score_nonempty:
  assumes "total_score E \<lparr>columns = labels, rows = map (frame_row keys) recs\<rparr> = Returned sheet"
    and "length labels = length (all_keys recs)"
  shows "1 \<le> length recs"
proof -
  from assms(1) have "Str ''Candidate Name'' \<in> set labels"
    by (auto elim: total_score_Returned)
  then have "labels \<noteq> []" by auto
  with assms(2) have "all_keys recs \<noteq> []" by auto
  then have "recs \<noteq> []" by (auto simp: all_keys_Nil)
  then show ?thesis by (cases recs) simp_all
qed

lemma routes_partial:
  assumes "routes_rank_resumes E requirements resumes = Returned sheet"
  shows "length (rows sheet) = length (succeeding E requirements resumes)"
    and "1 \<le> length (succeeding E requirements resumes)"
    and "Str ''Total Score'' \<in> set (columns sheet)"
    and "k < length (rows sheet) \<Longrightarrow> j < length (columns sheet) \<Longrightarrow>
         columns sheet ! j = Str ''Total Score'' \<Longrightarrow>
         exact_rows (routes_score_rows E requirements resumes) \<Longrightarrow>
         list_all numeric (routes_scores E requirements resumes k) \<Longrightarrow>
         rows sheet ! k ! j = Some (Num (sum_list (map int_of (routes_scores E requirements resumes k))))"
proof -
  let ?recs = "score_records E requirements resumes"
  let ?df = "\<lparr>columns = report_labels E ?recs, rows = map (frame_row (all_keys ?recs)) ?recs\<rparr>"
  from assms have ts: "total_score E ?df = Returned sheet"
    by (rule routes_rank_resumes_Returned)
  have wf: "wf_frame ?df"
    by (rule wf_frame_rows) (rule length_report_labels)
  from total_score_rows [OF ts] show len: "length (rows sheet) = length (succeeding E requirements resumes)"
    by (simp add: length_score_records)
  from total_score_nonempty [OF ts length_report_labels]
  show "1 \<le> length (succeeding E requirements resumes)"
    by (simp add: length_score_records)
  from ts show "Str ''Total Score'' \<in> set (columns sheet)"
    by (rule total_score_label)
  assume k: "k < length (rows sheet)" and j: "j < length (columns sheet)"
    and lab: "columns sheet ! j = Str ''Total Score''"
    and ex: "exact_rows (routes_score_rows E requirements resumes)"
    and num: "list_all numeric (routes_scores E requirements resumes k)"
  from k len have k': "k < length (rows ?df)"
    by (simp add: length_score_records)
  from ex have ex': "exact_rows (map (score_cells (columns ?df)) (rows ?df))"
    by (simp add: routes_score_rows_def comp_def)
  from num k' have "list_all numeric (score_cells (columns ?df) (rows ?df ! k))"
    by (simp add: routes_scores_def)
  from total_score_total [OF ts wf k' j lab ex' this] k'
  show "rows sheet ! k ! j = Some (Num (sum_list (map int_of (routes_scores E requirements resumes k))))"
    by (simp add: routes_scores_def)
qed

lemma app_partial:
  assumes "app_rank_resumes E requirements resumes = Returned sheet"
  shows "length (rows sheet) = length (filter supported resumes)"
    and "1 \<le> length (filter supported resumes)"
    and "Str ''Total Score'' \<in> set (columns sheet)"
    and "k < length (rows sheet) \<Longrightarrow> j < length (columns sheet) \<Longrightarrow>
         columns sheet ! j = Str ''Total Score'' \<Longrightarrow>
         exact_rows (app_score_rows E requirements resumes) \<Longrightarrow>
         list_all numeric (app_scores E requirements resumes k) \<Longrightarrow>
         rows sheet ! k ! j = Some (Num (sum_list (map int_of (app_scores E requirements resumes k))))"
proof -
  let ?recs = "app_records E requirements resumes"
  let ?df = "\<lparr>columns = map Str (all_keys ?recs), rows = map (frame_row (all_keys ?recs)) ?recs\<rparr>"
  from assms have ts: "total_score E ?df = Returned sheet"
    by (rule app_rank_resumes_Returned)
  from assms have n: "length ?recs = length (filter supported resumes)"
    by (rule app_rank_resumes_Returned)
  have wf: "wf_frame ?df"
    by (rule wf_frame_rows) simp
  from total_score_rows [OF ts] n show len: "length (rows sheet) = length (filter supported resumes)"
    by simp
  from total_score_nonempty [OF ts] n show "1 \<le> length (filter supported resumes)"
    by simp
  from ts show "Str ''Total Score'' \<in> set (columns sheet)"
    by (rule total_score_label)
  assume k: "k < length (rows sheet)" and j: "j < length (columns sheet)"
    and lab: "columns sheet ! j = Str ''Total Score''"
    and ex: "exact_rows (app_score_rows E requirements resumes)"
    and num: "list_all numeric (app_scores E requirements resumes k)"
  from k len n have k': "k < length (rows ?df)"
    by simp
  from ex have ex': "exact_rows (map (score_cells (columns ?df)) (rows ?df))"
    by (simp add: app_score_rows_def comp_def)
  from num k' have "list_all numeric (score_cells (columns ?df) (rows ?df ! k))"
    by (simp add: app_scores_def)
  from total_score_total [OF ts wf k' j lab ex' this] k'
  show "rows sheet ! k ! j = Some (Num (sum_list (map int_of (app_scores E requirements resumes k))))"
    by (simp add: app_scores_def)
qed

lemma routes_total:
  assumes st: "list_all (\<lambda>r. is_mapping r \<or> is_http r) (gather E requirements resumes)"
    and sh: "shorten_requirements E (map Str (all_keys (score_records E requirements resumes))) = Returned (PMap m)"
    and cn: "Str ''Candidate Name'' \<in> set (report_labels E (score_records E requirements resumes))"
    and ex: "exact_rows (routes_score_rows E requirements resumes)"
    and num: "list_all (list_all numeric) (routes_score_rows E requirements resumes)"
  shows "\<exists>sheet. routes_rank_resumes E requirements resumes = Returned sheet"
proof -
  let ?recs = "score_records E requirements resumes"
  let ?df = "\<lparr>columns = report_labels E ?recs, rows = map (frame_row (all_keys ?recs)) ?recs\<rparr>"
  from st have "fst (fan_in (gather E requirements resumes) [] []) = ?recs"
    by (rule final_results_structured)
  then have "routes_rank_resumes E requirements resumes = generate_excel E ?recs"
    by (simp add: routes_rank_resumes_def)
  also have "\<dots> = total_score E ?df"
    using score_records_mappings sh by (rule generate_excel_mapping)
  finally have eq: "routes_rank_resumes E requirements resumes = total_score E ?df" .
  from num have n: "list_all (\<lambda>row. list_all numeric (score_cells (columns ?df) row)) (rows ?df)"
    by (simp add: routes_score_rows_def list_all_iff)
  from ex have "exact_rows (map (score_cells (columns ?df)) (rows ?df))"
    by (simp add: routes_score_rows_def comp_def)
  with cn n have "\<exists>sheet. total_score E ?df = Returned sheet"
    by (intro total_score_exists) simp_all
  with eq show ?thesis by simp
qed

lemma routes_shortener_fault:
  assumes st: "list_all (\<lambda>r. is_mapping r \<or> is_http r) (gather E requirements resumes)"
    and sh: "shorten_requirements E (map Str (all_keys (score_records E requirements resumes))) = Raised e"
  shows "routes_rank_resumes E requirements resumes = Raised e"
proof -
  let ?recs = "score_records E requirements resumes"
  from st have "fst (fan_in (gather E requirements resumes) [] []) = ?recs"
    by (rule final_results_structured)
  then have "routes_rank_resumes E requirements resumes = generate_excel E ?recs"
    by (simp add: routes_rank_resumes_def)
  also from sh have "\<dots> = Raised e"
    using score_records_mappings [of E requirements resumes]
    by (simp add: generate_excel_def DataFrame_mappings)
  finally show ?thesis .
qed

lemma app_loop_fault:
  assumes "length resumes \<le> 50" and "score_all E requirements resumes [] = Raised e"
  shows "app_rank_resumes E requirements resumes = Raised e"
  using assms by (simp add: app_rank_resumes_def)

section \<open>The deployment, evaluated\<close>

lemmas extractor_defs = DocProcessor_process_def BaseDoc_def validate_size_def
  PdfDoc_extract_text_def DocxDoc_extract_text_def pdf_type_def docx_type_def
  demo_pdf_reader_def demo_docx_document_def

lemmas reply_defs = demo_generate_content_def demo_json_loads_def ann_json_def bo_json_def
  labels_json_def ann_text_def fence_def fence_json_def strip_def is_space_def lstrip_def rstrip_def

lemma demo_env_sel:
  "pdf_reader demo_env = demo_pdf_reader" "docx_document demo_env = demo_docx_document"
  "generate_content demo_env = demo_generate_content" "json_loads demo_env = demo_json_loads"
  by (simp_all add: demo_env_def)

lemma process_ann: "process_resume demo_env ann_pdf requirements = Returned ann_record"
  by (simp add: process_resume_def models_rank_resumes_def ann_pdf_def ann_record_def
      demo_env_sel extractor_defs reply_defs)

lemma process_bo: "process_resume demo_env bo_pdf requirements = Returned bo_record"
  by (simp add: process_resume_def models_rank_resumes_def bo_pdf_def bo_record_def
      demo_env_sel extractor_defs reply_defs)

lemma process_corrupt:
  "process_resume demo_env corrupt_docx requirements =
     Raised (HTTPException 422 ''DOCX processing error: File is not a zip file'')"
  by (simp add: process_resume_def corrupt_docx_def demo_env_sel extractor_defs)

lemma process_notes:
  "process_resume demo_env notes_txt requirements =
     Raised (HTTPException 422 ''Unsupported file type. Upload PDF or DOCX.'')"
  by (simp add: process_resume_def notes_txt_def demo_env_sel extractor_defs)

lemma report_of_ann_bo:
  "generate_excel demo_env [Returned ann_record, Returned bo_record] = Returned demo_report"
  by (simp add: generate_excel_def DataFrame_def all_keys_def shorten_requirements_def
      total_score_def drop_column_def sum_axis1_def row_totals_def exact_rows_def magnitude_def
      int_of_def row_sum_def fillna_def set_column_def
      ann_record_def bo_record_def demo_report_def demo_env_sel reply_defs)


lemma routes_demo:
  "routes_rank_resumes demo_env requirements [ann_pdf, notes_txt, bo_pdf] = Returned demo_report"
  by (simp add: routes_rank_resumes_def gather_def process_ann process_bo process_notes report_of_ann_bo)

lemma show_nat_500: "show_nat 500 = ''500''"
  by code_simp

lemma prose_env_sel:
  "pdf_reader prose_env = demo_pdf_reader" "docx_document prose_env = demo_docx_document"
  "json_loads prose_env = demo_json_loads"
  "generate_content prose_env (RankPrompt req_ls resume) = demo_generate_content (RankPrompt req_ls resume)"
  "generate_content prose_env (ShortenPrompt labels) = Returned ''Here are the labels you asked for.''"
  by (simp_all add: prose_env_def demo_env_def)

lemma app_score_ann: "score_resume_with_gemini demo_env ann_text requirements = Returned ann_record"
  by (simp add: score_resume_with_gemini_def ann_record_def demo_env_sel reply_defs)

lemma app_score_bo:
  "score_resume_with_gemini demo_env ''Bo Chen, Java, 2 years'' requirements = Returned bo_record"
  by (simp add: score_resume_with_gemini_def bo_record_def demo_env_sel reply_defs)

lemma app_text_ann: "fst (app_extract_text demo_env ann_pdf) = Returned ann_text"
  by (simp add: app_extract_text_def extract_text_from_pdf_def ann_pdf_def ann_text_def
      pdf_type_def demo_env_sel demo_pdf_reader_def)

lemma app_text_bo: "fst (app_extract_text demo_env bo_pdf) = Returned ''Bo Chen, Java, 2 years''"
  by (simp add: app_extract_text_def extract_text_from_pdf_def bo_pdf_def
      pdf_type_def demo_env_sel demo_pdf_reader_def)

lemma app_text_corrupt:
  "fst (app_extract_text demo_env corrupt_docx) =
     Raised (HTTPException 422 ''DOCX processing error: File is not a zip file'')"
  by (simp add: app_extract_text_def extract_text_from_docx_def corrupt_docx_def
      pdf_type_def docx_type_def demo_env_sel demo_docx_document_def)

lemma supported_demo:
  "supported ann_pdf" "supported bo_pdf" "supported corrupt_docx" "\<not> supported notes_txt"
  by (simp_all add: supported_def ann_pdf_def bo_pdf_def corrupt_docx_def notes_txt_def
      pdf_type_def docx_type_def)

lemma app_loop_demo:
  "score_all demo_env requirements [ann_pdf, notes_txt, bo_pdf] [] = Returned [ann_record, bo_record]"
  by (simp add: supported_demo app_text_ann app_text_bo app_score_ann app_score_bo)

lemma app_frame_of_ann_bo:
  "DataFrame [Returned ann_record, Returned bo_record] =
     Returned \<lparr>columns = [Str ''Candidate Name'', Str ''Python'', Str ''Degree''],
               rows = [[Some (Str ''Ann Lee''), Some (Num 5), Some (Num 3)],
                       [Some (Str ''Bo Chen''), Some (Num 1), Some (Num 4)]]\<rparr>"
  by (simp add: DataFrame_def all_keys_def ann_record_def bo_record_def)

lemma app_demo:
  "app_rank_resumes demo_env requirements [ann_pdf, notes_txt, bo_pdf] = Returned app_report"
  by (simp add: app_rank_resumes_def app_loop_demo app_frame_of_ann_bo total_score_def
      drop_column_def sum_axis1_def row_totals_def exact_rows_def magnitude_def int_of_def
      row_sum_def fillna_def set_column_def app_report_def
      del: score_all.simps)

lemma succeeding_demo: "succeeding demo_env requirements demo_batch = [ann_pdf, bo_pdf]"
  by (simp add: succeeding_def demo_batch_def process_ann process_bo process_notes
      ann_record_def bo_record_def)

lemma records_demo:
  "score_records demo_env requirements demo_batch = [Returned ann_record, Returned bo_record]"
  by (simp add: score_records_def succeeding_demo process_ann process_bo)

lemma keys_demo: "all_keys [Returned ann_record, Returned bo_record] = [''Candidate Name'', ''Python'', ''Degree'']"
  by (simp add: all_keys_def ann_record_def bo_record_def)

lemma shorten_demo:
  "shorten_requirements demo_env (map Str [''Candidate Name'', ''Python'', ''Degree'']) =
     Returned (PMap demo_colmap)"
  by (simp add: shorten_requirements_def demo_colmap_def demo_env_sel reply_defs)

lemma labels_demo:
  "report_labels demo_env [Returned ann_record, Returned bo_record] =
     [Str ''Candidate Name'', Str ''Py'', Str ''Deg'']"
  by (simp only: report_labels_def keys_demo shorten_demo) (simp add: demo_colmap_def)

lemma routes_scores_demo:
  "routes_scores demo_env requirements demo_batch 0 = [Some (Num 5), Some (Num 3)]"
  "routes_scores demo_env requirements demo_batch (Suc 0) = [Some (Num 1), Some (Num 4)]"
  by (simp_all only: routes_scores_def records_demo labels_demo keys_demo)
    (simp_all add: frame_row_def score_cells_def ann_record_def bo_record_def)

lemma app_records_demo:
  "app_records demo_env requirements demo_batch = [Returned ann_record, Returned bo_record]"
  by (simp add: app_records_def demo_batch_def app_loop_demo del: score_all.simps)

lemma app_scores_demo:
  "app_scores demo_env requirements demo_batch (Suc 0) = [Some (Num 1), Some (Num 4)]"
  by (simp only: app_scores_def app_records_demo keys_demo)
    (simp add: frame_row_def score_cells_def ann_record_def bo_record_def)

lemma routes_score_rows_demo:
  "routes_score_rows demo_env requirements demo_batch =
     [[Some (Num 5), Some (Num 3)], [Some (Num 1), Some (Num 4)]]"
  by (simp only: routes_score_rows_def records_demo keys_demo labels_demo)
    (simp add: frame_row_def score_cells_def ann_record_def bo_record_def)

lemma app_score_rows_demo:
  "app_score_rows demo_env requirements demo_batch =
     [[Some (Num 5), Some (Num 3)], [Some (Num 1), Some (Num 4)]]"
  by (simp only: app_score_rows_def app_records_demo keys_demo)
    (simp add: frame_row_def score_cells_def ann_record_def bo_record_def)

lemma process_ann_prose: "process_resume prose_env ann_pdf requirements = Returned ann_record"
  by (simp add: process_resume_def models_rank_resumes_def ann_pdf_def ann_record_def
      prose_env_sel extractor_defs reply_defs)

lemma process_bo_prose: "process_resume prose_env bo_pdf requirements = Returned bo_record"
  by (simp add: process_resume_def models_rank_resumes_def bo_pdf_def bo_record_def
      prose_env_sel extractor_defs reply_defs)

lemma process_notes_prose:
  "process_resume prose_env notes_txt requirements =
     Raised (HTTPException 422 ''Unsupported file type. Upload PDF or DOCX.'')"
  by (simp add: process_resume_def notes_txt_def prose_env_sel extractor_defs)

lemma records_prose:
  "score_records prose_env requirements demo_batch = [Returned ann_record, Returned bo_record]"
  by (simp add: score_records_def succeeding_def demo_batch_def process_ann_prose process_bo_prose
      process_notes_prose ann_record_def bo_record_def)

lemma shorten_prose:
  "shorten_requirements prose_env (map Str [''Candidate Name'', ''Python'', ''Degree'']) =
     Raised (JSONDecodeError ''Expecting value: line 1 column 1 (char 0)'')"
  by (simp add: shorten_requirements_def prose_env_sel reply_defs)

section \<open>Properties of the ranking orchestrator and of the report\<close>

text \<open>
  C1, as stated, fails: a batch with a succeeding resume does not always yield a
  spreadsheet. In the main package the reply of the label shortener is parsed inside the
  report builder, and a reply in prose ends the request although one pipeline returned its
  ScoreRecord and the other failed with a structured failure. In \<^verbatim>\<open>app.py\<close> the exception
  of the corrupted DOCX upload ends the request although the PDF resume before it was
  scored.
\<close>

theorem C1_counterexample:
  "process_resume prose_env ann_pdf ''Python; Degree'' = Returned ann_record
   \<and> process_resume prose_env corrupt_docx ''Python; Degree'' =
       Raised (HTTPException 422 ''DOCX processing error: File is not a zip file'')
   \<and> routes_rank_resumes prose_env ''Python; Degree'' [ann_pdf, corrupt_docx] =
       Raised (JSONDecodeError ''Expecting value: line 1 column 1 (char 0)'')
   \<and> score_resume_with_gemini demo_env ann_text ''Python; Degree'' = Returned ann_record
   \<and> app_rank_resumes demo_env ''Python; Degree'' [ann_pdf, corrupt_docx] =
       Raised (HTTPException 422 ''DOCX processing error: File is not a zip file'')"
proof -
  have a: "process_resume prose_env ann_pdf ''Python; Degree'' = Returned ann_record"
    by (simp add: process_resume_def models_rank_resumes_def ann_pdf_def ann_record_def
        prose_env_sel extractor_defs reply_defs)
  have b: "process_resume prose_env corrupt_docx ''Python; Degree'' =
      Raised (HTTPException 422 ''DOCX processing error: File is not a zip file'')"
    by (simp add: process_resume_def corrupt_docx_def prose_env_sel extractor_defs)
  have c: "generate_excel prose_env [Returned ann_record] =
      Raised (JSONDecodeError ''Expecting value: line 1 column 1 (char 0)'')"
    by (simp add: generate_excel_def DataFrame_def all_keys_def shorten_requirements_def
        ann_record_def prose_env_sel reply_defs)
  have d: "routes_rank_resumes prose_env ''Python; Degree'' [ann_pdf, corrupt_docx] =
      Raised (JSONDecodeError ''Expecting value: line 1 column 1 (char 0)'')"
    by (simp add: routes_rank_resumes_def gather_def a b c)
  have e: "app_rank_resumes demo_env ''Python; Degree'' [ann_pdf, corrupt_docx] =
      Raised (HTTPException 422 ''DOCX processing error: File is not a zip file'')"
    by (simp add: app_rank_resumes_def supported_demo app_text_ann app_score_ann app_text_corrupt)
  from a b d e app_score_ann show ?thesis by simp
qed

text \<open>
  C1, amended. Whenever the rank-resumes route of the main package returns a spreadsheet,
  at least one pipeline produced a ScoreRecord, the spreadsheet has exactly one row per
  succeeding resume and a column labelled \<^verbatim>\<open>Total Score\<close>, and, when in every row the
  absolute values of the integer scores add up to at most 9007199254740992, the cell of
  that column is the sum of the integer scores in every row whose cells outside the
  columns labelled \<^verbatim>\<open>Candidate Name\<close> (labels taken after the relabelling) are integers or
  missing. The route does return a spreadsheet when every pipeline returns a ScoreRecord
  or fails with an \<open>HTTPException\<close>, the shortener replies with a mapping, a column
  labelled \<^verbatim>\<open>Candidate Name\<close> remains, and all score cells are integers or missing, within
  that bound. When every pipeline returns a ScoreRecord or fails with an \<open>HTTPException\<close>
  and the call of the shortener raises, the route raises the same exception. Whenever the
  endpoint of \<^verbatim>\<open>app.py\<close> returns a spreadsheet, it has one row per resume of a supported
  type, and the same total under the same bound; when its loop over at most 50 resumes
  raises, the endpoint raises the same exception.
\<close>

theorem C1_report_rows_and_totals:
  "(routes_rank_resumes E requirements resumes = Returned sheet \<longrightarrow>
      length (rows sheet) = length (succeeding E requirements resumes)
      \<and> 1 \<le> length (succeeding E requirements resumes)
      \<and> Str ''Total Score'' \<in> set (columns sheet)
      \<and> (\<forall>k j. k < length (rows sheet) \<and> j < length (columns sheet)
             \<and> columns sheet ! j = Str ''Total Score''
             \<and> exact_rows (routes_score_rows E requirements resumes)
             \<and> list_all numeric (routes_scores E requirements resumes k) \<longrightarrow>
           rows sheet ! k ! j =
             Some (Num (sum_list (map int_of (routes_scores E requirements resumes k))))))
   \<and> (list_all (\<lambda>r. is_mapping r \<or> is_http r) (gather E requirements resumes)
      \<and> shorten_requirements E (map Str (all_keys (score_records E requirements resumes))) = Returned (PMap m)
      \<and> Str ''Candidate Name'' \<in> set (report_labels E (score_records E requirements resumes))
      \<and> exact_rows (routes_score_rows E requirements resumes)
      \<and> list_all (list_all numeric) (routes_score_rows E requirements resumes) \<longrightarrow>
      (\<exists>report. routes_rank_resumes E requirements resumes = Returned report))
   \<and> (list_all (\<lambda>r. is_mapping r \<or> is_http r) (gather E requirements resumes)
      \<and> shorten_requirements E (map Str (all_keys (score_records E requirements resumes))) = Raised e \<longrightarrow>
      routes_rank_resumes E requirements resumes = Raised e)
   \<and> (app_rank_resumes E requirements resumes = Returned sheet' \<longrightarrow>
      length (rows sheet') = length (filter supported resumes)
      \<and> 1 \<le> length (filter supported resumes)
      \<and> Str ''Total Score'' \<in> set (columns sheet')
      \<and> (\<forall>k j. k < length (rows sheet') \<and> j < length (columns sheet')
             \<and> columns sheet' ! j = Str ''Total Score''
             \<and> exact_rows (app_score_rows E requirements resumes)
             \<and> list_all numeric (app_scores E requirements resumes k) \<longrightarrow>
           rows sheet' ! k ! j =
             Some (Num (sum_list (map int_of (app_scores E requirements resumes k))))))
   \<and> (length resumes \<le> 50 \<and> score_all E requirements resumes [] = Raised e' \<longrightarrow>
      app_rank_resumes E requirements resumes = Raised e')"
  using routes_partial [of E requirements resumes sheet]
    routes_total [of E requirements resumes m]
    routes_shortener_fault [of E requirements resumes e]
    app_partial [of E requirements resumes sheet']
    app_loop_fault [of resumes E requirements e']
  by blast

text \<open>
  The amended C1 at a batch of two PDF resumes around a text file, in both implementations:
  two rows, with totals 8 and 5. With a shortener that answers in prose the route raises
  the exception of the parser, and a corrupted DOCX upload ends the loop of \<^verbatim>\<open>app.py\<close>.
\<close>

theorem C1_report_rows_and_totals_witness:
  "routes_rank_resumes demo_env ''Python; Degree'' demo_batch = Returned demo_report
   \<and> succeeding demo_env ''Python; Degree'' demo_batch = [ann_pdf, bo_pdf]
   \<and> length (rows demo_report) = 2
   \<and> columns demo_report ! 3 = Str ''Total Score''
   \<and> routes_score_rows demo_env ''Python; Degree'' demo_batch =
        [[Some (Num 5), Some (Num 3)], [Some (Num 1), Some (Num 4)]]
   \<and> exact_rows (routes_score_rows demo_env ''Python; Degree'' demo_batch)
   \<and> list_all (list_all numeric) (routes_score_rows demo_env ''Python; Degree'' demo_batch)
   \<and> routes_scores demo_env ''Python; Degree'' demo_batch 0 = [Some (Num 5), Some (Num 3)]
   \<and> rows demo_report ! 0 ! 3 = Some (Num 8)
   \<and> list_all (\<lambda>r. is_mapping r \<or> is_http r) (gather demo_env ''Python; Degree'' demo_batch)
   \<and> shorten_requirements demo_env
        (map Str (all_keys (score_records demo_env ''Python; Degree'' demo_batch))) =
        Returned (PMap demo_colmap)
   \<and> Str ''Candidate Name'' \<in> set (report_labels demo_env (score_records demo_env ''Python; Degree'' demo_batch))
   \<and> (\<exists>report. routes_rank_resumes demo_env ''Python; Degree'' demo_batch = Returned report)
   \<and> list_all (\<lambda>r. is_mapping r \<or> is_http r) (gather prose_env ''Python; Degree'' demo_batch)
   \<and> shorten_requirements prose_env
        (map Str (all_keys (score_records prose_env ''Python; Degree'' demo_batch))) =
        Raised (JSONDecodeError ''Expecting value: line 1 column 1 (char 0)'')
   \<and> routes_rank_resumes prose_env ''Python; Degree'' demo_batch =
        Raised (JSONDecodeError ''Expecting value: line 1 column 1 (char 0)'')
   \<and> app_rank_resumes demo_env ''Python; Degree'' demo_batch = Returned app_report
   \<and> length (rows app_report) = length (filter supported demo_batch)
   \<and> exact_rows (app_score_rows demo_env ''Python; Degree'' demo_batch)
   \<and> app_scores demo_env ''Python; Degree'' demo_batch (Suc 0) = [Some (Num 1), Some (Num 4)]
   \<and> rows app_report ! 1 ! 3 = Some (Num 5)
   \<and> length [ann_pdf, corrupt_docx] \<le> 50
   \<and> score_all demo_env ''Python; Degree'' [ann_pdf, corrupt_docx] [] =
        Raised (HTTPException 422 ''DOCX processing error: File is not a zip file'')
   \<and> app_rank_resumes demo_env ''Python; Degree'' [ann_pdf, corrupt_docx] =
        Raised (HTTPException 422 ''DOCX processing error: File is not a zip file'')"
proof -
  let ?r = "''Python; Degree''"
  let ?j = "JSONDecodeError ''Expecting value: line 1 column 1 (char 0)''"
  let ?h = "HTTPException 422 ''DOCX processing error: File is not a zip file''"
  note T = C1_report_rows_and_totals [of demo_env ?r demo_batch demo_report demo_colmap _ app_report]
  note P = C1_report_rows_and_totals [of prose_env ?r demo_batch _ _ ?j]
  note A = C1_report_rows_and_totals [of demo_env ?r "[ann_pdf, corrupt_docx]" _ _ _ _ ?h]
  have h1: "routes_rank_resumes demo_env ?r demo_batch = Returned demo_report"
    unfolding demo_batch_def by (rule routes_demo)
  have h2: "app_rank_resumes demo_env ?r demo_batch = Returned app_report"
    unfolding demo_batch_def by (rule app_demo)
  have g: "list_all (\<lambda>r. is_mapping r \<or> is_http r) (gather demo_env ?r demo_batch)"
    by (simp add: gather_def demo_batch_def process_ann process_bo process_notes ann_record_def bo_record_def)
  have s: "shorten_requirements demo_env (map Str (all_keys (score_records demo_env ?r demo_batch))) =
      Returned (PMap demo_colmap)"
    by (simp only: records_demo keys_demo shorten_demo)
  have c: "Str ''Candidate Name'' \<in> set (report_labels demo_env (score_records demo_env ?r demo_batch))"
    by (simp add: records_demo labels_demo)
  have sr: "routes_score_rows demo_env ?r demo_batch =
      [[Some (Num 5), Some (Num 3)], [Some (Num 1), Some (Num 4)]]"
    by (rule routes_score_rows_demo)
  have x: "exact_rows (routes_score_rows demo_env ?r demo_batch)"
    by (simp add: sr exact_rows_def magnitude_def int_of_def)
  have n: "list_all (list_all numeric) (routes_score_rows demo_env ?r demo_batch)"
    by (simp add: sr numeric_def)
  have ax: "exact_rows (app_score_rows demo_env ?r demo_batch)"
    by (simp add: app_score_rows_demo exact_rows_def magnitude_def int_of_def)
  from T g s c x n have ex: "\<exists>report. routes_rank_resumes demo_env ?r demo_batch = Returned report"
    by blast
  from T h1 have len: "length (rows demo_report) = length (succeeding demo_env ?r demo_batch)"
    by blast
  from T h1 have "0 < length (rows demo_report) \<and> 3 < length (columns demo_report)
      \<and> columns demo_report ! 3 = Str ''Total Score''
      \<and> exact_rows (routes_score_rows demo_env ?r demo_batch)
      \<and> list_all numeric (routes_scores demo_env ?r demo_batch 0) \<longrightarrow>
      rows demo_report ! 0 ! 3 = Some (Num (sum_list (map int_of (routes_scores demo_env ?r demo_batch 0))))"
    by blast
  with x have t0: "rows demo_report ! 0 ! 3 = Some (Num 8)"
    by (simp add: demo_report_def routes_scores_demo numeric_def int_of_def)
  from T h2 have alen: "length (rows app_report) = length (filter supported demo_batch)"
    by blast
  from T h2 have "1 < length (rows app_report) \<and> 3 < length (columns app_report)
      \<and> columns app_report ! 3 = Str ''Total Score''
      \<and> exact_rows (app_score_rows demo_env ?r demo_batch)
      \<and> list_all numeric (app_scores demo_env ?r demo_batch 1) \<longrightarrow>
      rows app_report ! 1 ! 3 = Some (Num (sum_list (map int_of (app_scores demo_env ?r demo_batch 1))))"
    by blast
  with ax have t1: "rows app_report ! 1 ! 3 = Some (Num 5)"
    by (simp add: app_report_def app_scores_demo numeric_def int_of_def)
  have l2: "length (rows demo_report) = 2" and c3: "columns demo_report ! 3 = Str ''Total Score''"
    by (simp_all add: demo_report_def)
  have pg: "list_all (\<lambda>r. is_mapping r \<or> is_http r) (gather prose_env ?r demo_batch)"
    by (simp add: gather_def demo_batch_def process_ann_prose process_bo_prose process_notes_prose
        ann_record_def bo_record_def)
  have ps: "shorten_requirements prose_env (map Str (all_keys (score_records prose_env ?r demo_batch))) =
      Raised ?j"
    by (simp only: records_prose keys_demo shorten_prose)
  from P pg ps have pr: "routes_rank_resumes prose_env ?r demo_batch = Raised ?j"
    by blast
  have al: "length [ann_pdf, corrupt_docx] \<le> 50"
    by simp
  have sa: "score_all demo_env ?r [ann_pdf, corrupt_docx] [] = Raised ?h"
    by (simp add: supported_demo app_text_ann app_score_ann app_text_corrupt)
  from A al sa have ar: "app_rank_resumes demo_env ?r [ann_pdf, corrupt_docx] = Raised ?h"
    by blast
  from h1 h2 g s c ex t0 t1 alen l2 c3 succeeding_demo routes_scores_demo(1) app_scores_demo
    sr x n pg ps pr ax al sa ar
  show ?thesis by simp
qed



lemma DataFrame_fault:
  "r \<in> set results \<Longrightarrow> \<not> is_mapping r \<Longrightarrow> generate_excel E results = Raised FrameError"
  by (auto simp: generate_excel_def DataFrame_def list_all_iff)

text \<open>
  C3. The claim fails on the code: \<open>rank_resumes\<close> of \<^verbatim>\<open>aimodels.py\<close> calls the backend
  outside any \<^verbatim>\<open>try\<close>, so a failure of the call that is not an \<open>HTTPException\<close> leaves the
  pipeline as it was raised; the loop after the gather tests for \<open>HTTPException\<close> only and
  appends the exception to \<open>final_results\<close>, and the report builder then fails on it, which
  ends the whole batch with status 500.
\<close>

theorem C3_backend_fault_enters_results:
  assumes "fst (DocProcessor_process E resume) = Returned (Text text)"
    and "\<not> contains text ''error''"
    and "generate_content E (RankPrompt requirements text) = Raised e"
    and "\<forall>status detail. e \<noteq> HTTPException status detail"
    and "resume \<in> set resumes"
  shows "models_rank_resumes E requirements text = Raised e
    \<and> process_resume E resume requirements = Raised e
    \<and> Raised e \<in> set (fst (fan_in (gather E requirements resumes) [] []))
    \<and> (\<forall>sheet. routes_rank_resumes E requirements resumes \<noteq> Returned sheet)
    \<and> http_status (routes_rank_resumes E requirements resumes) = 500"
proof -
  from assms(3) have m: "models_rank_resumes E requirements text = Raised e"
    by (simp add: models_rank_resumes_def)
  with assms(1,2) have p: "process_resume E resume requirements = Raised e"
    by (simp add: process_resume_def)
  from assms(4) have nh: "\<not> is_http (Raised e :: parsed result)"
    by (cases e) simp_all
  from p assms(5) have "Raised e \<in> set (gather E requirements resumes)"
    by (force simp: gather_def)
  with nh have f: "Raised e \<in> set (fst (fan_in (gather E requirements resumes) [] []))"
    by (simp add: fan_in_filter)
  then have r: "routes_rank_resumes E requirements resumes = Raised FrameError"
    unfolding routes_rank_resumes_def by (rule DataFrame_fault) simp
  from m p f r show ?thesis by simp
qed

lemma flaky_env_sel:
  "pdf_reader flaky_env = demo_pdf_reader" "docx_document flaky_env = demo_docx_document"
  "json_loads flaky_env = demo_json_loads"
  "generate_content flaky_env (RankPrompt req_ls resume) =
     (if resume = ann_text then demo_generate_content (RankPrompt req_ls resume)
      else Raised (OtherError ''503 Service Unavailable''))"
  by (simp_all add: flaky_env_def demo_env_def)

text \<open>
  C3 at a batch of two resumes, where the backend fails for the second one: the exception
  stands in \<open>final_results\<close> beside the record of the first.
\<close>

theorem C3_backend_fault_enters_results_witness:
  "fst (DocProcessor_process flaky_env bo_pdf) = Returned (Text ''Bo Chen, Java, 2 years'')
   \<and> \<not> contains ''Bo Chen, Java, 2 years'' ''error''
   \<and> generate_content flaky_env (RankPrompt ''Python; Degree'' ''Bo Chen, Java, 2 years'') =
       Raised (OtherError ''503 Service Unavailable'')
   \<and> process_resume flaky_env ann_pdf ''Python; Degree'' = Returned ann_record
   \<and> process_resume flaky_env bo_pdf ''Python; Degree'' = Raised (OtherError ''503 Service Unavailable'')
   \<and> fst (fan_in (gather flaky_env ''Python; Degree'' [ann_pdf, bo_pdf]) [] []) =
       [Returned ann_record, Raised (OtherError ''503 Service Unavailable'')]
   \<and> http_status (routes_rank_resumes flaky_env ''Python; Degree'' [ann_pdf, bo_pdf]) = 500"
proof -
  let ?r = "''Python; Degree''" and ?t = "''Bo Chen, Java, 2 years''"
  have h1: "fst (DocProcessor_process flaky_env bo_pdf) = Returned (Text ?t)"
    by (simp add: bo_pdf_def flaky_env_sel extractor_defs)
  have h2: "\<not> contains ?t ''error''"
    by simp
  have h3: "generate_content flaky_env (RankPrompt ?r ?t) = Raised (OtherError ''503 Service Unavailable'')"
    by (simp add: flaky_env_sel ann_text_def)
  have h4: "\<forall>status detail. OtherError ''503 Service Unavailable'' \<noteq> HTTPException status detail"
    by simp
  have h5: "bo_pdf \<in> set [ann_pdf, bo_pdf]"
    by simp
  have a: "process_resume flaky_env ann_pdf ?r = Returned ann_record"
    by (simp add: process_resume_def models_rank_resumes_def ann_pdf_def ann_record_def
        flaky_env_sel extractor_defs reply_defs)
  from C3_backend_fault_enters_results [OF h1 h2 h3 h4 h5] h1 h2 h3 a show ?thesis
    by (simp add: gather_def)
qed

text \<open>
  C5. The claim fails on the code of the main package: \<open>process_resume\<close> calls
  \<^verbatim>\<open>json.loads\<close> outside any \<^verbatim>\<open>try\<close>, so the \<open>JSONDecodeError\<close> leaves the pipeline as it
  was raised and reaches \<open>final_results\<close>. The scorer of \<^verbatim>\<open>app.py\<close> does convert it, into
  the structured failure 500 whose detail wraps \<^verbatim>\<open>Invalid JSON response from Gemini.\<close>
\<close>

theorem C5_unparseable_reply_propagates:
  "(fst (DocProcessor_process E resume) = Returned (Text text) \<and> \<not> contains text ''error''
      \<and> models_rank_resumes E requirements text = Returned (RankResponse response status_code)
      \<and> json_loads E response = Raised (JSONDecodeError m) \<longrightarrow>
      process_resume E resume requirements = Raised (JSONDecodeError m)
      \<and> fst (fan_in (gather E requirements [resume]) [] []) = [Raised (JSONDecodeError m)])
   \<and> (generate_content E (AppScorePrompt requirements text) = Returned reply
      \<and> json_loads E (rstrip fence (lstrip fence_json reply)) = Raised (JSONDecodeError m) \<longrightarrow>
      score_resume_with_gemini E text requirements =
        Raised (HTTPException 500 ''Resume scoring error: 500: Invalid JSON response from Gemini.''))"
  by (simp add: process_resume_def gather_def score_resume_with_gemini_def scoring_error_def show_nat_500)

text \<open>C5 at a DOCX resume for which the backend answers in prose.\<close>

theorem C5_unparseable_reply_propagates_witness:
  "fst (DocProcessor_process demo_env cy_docx) = Returned (Text cy_text)
   \<and> \<not> contains cy_text ''error''
   \<and> models_rank_resumes demo_env ''Python; Degree'' cy_text =
       Returned (RankResponse ''I cannot score this document.'' 200)
   \<and> json_loads demo_env ''I cannot score this document.'' =
       Raised (JSONDecodeError ''Expecting value: line 1 column 1 (char 0)'')
   \<and> process_resume demo_env cy_docx ''Python; Degree'' =
       Raised (JSONDecodeError ''Expecting value: line 1 column 1 (char 0)'')
   \<and> fst (fan_in (gather demo_env ''Python; Degree'' [cy_docx]) [] []) =
       [Raised (JSONDecodeError ''Expecting value: line 1 column 1 (char 0)'')]
   \<and> generate_content demo_env (AppScorePrompt ''Python; Degree'' cy_text) =
       Returned ''I cannot score this document.''
   \<and> score_resume_with_gemini demo_env cy_text ''Python; Degree'' =
       Raised (HTTPException 500 ''Resume scoring error: 500: Invalid JSON response from Gemini.'')"
proof -
  let ?r = "''Python; Degree''" and ?reply = "''I cannot score this document.''"
  let ?m = "''Expecting value: line 1 column 1 (char 0)''"
  have h1: "fst (DocProcessor_process demo_env cy_docx) = Returned (Text cy_text)"
    by (simp add: cy_docx_def cy_text_def demo_env_sel extractor_defs)
  have h2: "\<not> contains cy_text ''error''"
    by (simp add: cy_text_def)
  have h3: "models_rank_resumes demo_env ?r cy_text = Returned (RankResponse ?reply 200)"
    by (simp add: models_rank_resumes_def cy_text_def demo_env_sel reply_defs)
  have h4: "json_loads demo_env ?reply = Raised (JSONDecodeError ?m)"
    by (simp add: demo_env_sel reply_defs)
  have h5: "generate_content demo_env (AppScorePrompt ?r cy_text) = Returned ?reply"
    by (simp add: cy_text_def demo_env_sel reply_defs)
  have h6: "json_loads demo_env (rstrip fence (lstrip fence_json ?reply)) = Raised (JSONDecodeError ?m)"
    by (simp add: demo_env_sel reply_defs)
  from C5_unparseable_reply_propagates [of demo_env cy_docx cy_text ?r ?reply 200 ?m ?reply]
    h1 h2 h3 h4 h5 h6
  show ?thesis by simp
qed

lemma add_cell_Raised: "add_cell a b = Raised e \<Longrightarrow> \<not> is_http (Raised e :: data_frame result)"
  by (cases a; cases b) auto

lemma sum_from_Raised: "sum_from acc xs = Raised e \<Longrightarrow> \<not> is_http (Raised e :: data_frame result)"
  by (induction xs arbitrary: acc) (auto split: result.splits dest: add_cell_Raised)

lemma row_sum_Raised: "row_sum row = Raised e \<Longrightarrow> \<not> is_http (Raised e :: data_frame result)"
  by (auto simp: row_sum_def split: list.splits dest: sum_from_Raised)

lemma sum_rows_Raised: "sum_rows rs = Raised e \<Longrightarrow> \<not> is_http (Raised e :: data_frame result)"
  by (induction rs) (auto split: result.splits dest: row_sum_Raised)

lemma collect_Raised: "collect xs = Raised e \<Longrightarrow> e = SumError"
  by (induction xs rule: collect.induct) (auto split: result.splits)

lemma row_totals_Raised: "row_totals E rs = Raised e \<Longrightarrow> \<not> is_http (Raised e :: data_frame result)"
  by (auto simp: row_totals_def split: if_splits dest: sum_rows_Raised collect_Raised)

lemma total_score_Raised: "total_score E df = Raised e \<Longrightarrow> \<not> is_http (Raised e :: data_frame result)"
  by (auto simp: total_score_def drop_column_def sum_axis1_def split: result.splits if_splits
      dest: row_totals_Raised)

lemma total_score_no_columns:
  "columns df = [] \<Longrightarrow> total_score E df = Raised missing_name"
  by (simp add: total_score_def drop_column_def missing_name_def)

lemma docx_handlers_422: "\<exists>detail. docx_handlers e = HTTPException 422 detail"
  by (cases e) simp_all

lemma app_extract_text_Raised:
  "fst (app_extract_text E file) = Raised e \<Longrightarrow>
   e = no_PdfReadError \<or> (\<exists>detail. e = HTTPException 422 detail)"
  using docx_handlers_422
  by (auto simp: app_extract_text_def extract_text_from_pdf_def extract_text_from_docx_def
      split: if_splits pdf_outcome.splits docx_outcome.splits)

lemma score_resume_Raised:
  "score_resume_with_gemini E resume_text requirements = Raised e \<Longrightarrow> \<exists>detail. e = HTTPException 500 detail"
  by (auto simp: score_resume_with_gemini_def scoring_error_def split: result.splits exc.splits)

lemma score_all_Raised:
  "score_all E requirements resumes results = Raised e \<Longrightarrow>
   e = no_PdfReadError \<or> (\<exists>detail. e = HTTPException 422 detail \<or> e = HTTPException 500 detail)"
proof (induction resumes arbitrary: results)
  case Nil
  then show ?case by simp
next
  case (Cons resume rest)
  then show ?case
    by (auto split: if_splits result.splits dest: app_extract_text_Raised score_resume_Raised)
qed

lemma app_never_400:
  "app_rank_resumes E requirements resumes \<noteq>
     Raised (HTTPException 400 ''No resumes processed successfully.'')"
proof
  assume a: "app_rank_resumes E requirements resumes =
      Raised (HTTPException 400 ''No resumes processed successfully.'')"
  then have le: "\<not> 50 < length resumes"
    by (auto simp: app_rank_resumes_def split: if_splits)
  show False
  proof (cases "score_all E requirements resumes []")
    case (Raised e)
    with a le have "e = HTTPException 400 ''No resumes processed successfully.''"
      by (simp add: app_rank_resumes_def)
    with score_all_Raised [OF Raised] show False by (auto simp: no_PdfReadError_def)
  next
    case (Returned results)
    show False
    proof (cases "DataFrame (map Returned results)")
      case (Raised e)
      with a le Returned show False
        by (auto simp: app_rank_resumes_def DataFrame_def split: if_splits)
    next
      case df: (Returned df)
      show False
      proof (cases "total_score E df")
        case (Raised e)
        with a le Returned df have "e = HTTPException 400 ''No resumes processed successfully.''"
          by (simp add: app_rank_resumes_def)
        with total_score_Raised [OF Raised] show False by simp
      next
        case ts: (Returned df')
        with a le Returned df have "results = []"
          by (auto simp: app_rank_resumes_def split: if_splits)
        with df have "columns df = []"
          by (auto simp: DataFrame_def all_keys_def)
        from total_score_no_columns [OF this] ts show False by simp
      qed
    qed
  qed
qed

lemma app_no_results:
  assumes "length resumes \<le> 50" and "score_all E requirements resumes [] = Returned []"
  shows "app_rank_resumes E requirements resumes = Raised missing_name"
  using assms
  by (simp add: app_rank_resumes_def DataFrame_def all_keys_def total_score_no_columns)

lemma routes_no_results:
  assumes "list_all is_http (gather E requirements resumes)"
    and "shorten_requirements E [] = Returned (PMap m)"
  shows "routes_rank_resumes E requirements resumes = Raised missing_name"
proof -
  from assms(1) have "filter (\<lambda>r. \<not> is_http r) (gather E requirements resumes) = []"
    by (simp add: list_all_iff)
  then have "fst (fan_in (gather E requirements resumes) [] []) = []"
    by (simp add: fan_in_filter)
  with assms(2) show ?thesis
    by (simp add: routes_rank_resumes_def generate_excel_def DataFrame_def all_keys_def
        total_score_no_columns)
qed

text \<open>
  C2. The claim fails on the code. In \<^verbatim>\<open>app.py\<close> the test for an empty list of results
  stands after the computation of the total, which raises \<open>KeyError\<close> on the empty frame:
  the endpoint never answers with its failure 400, and a batch without a scored resume
  ends with status 500. The route of the main package has no such test: without a
  succeeding resume it returns no spreadsheet, and when every pipeline failed with an
  \<open>HTTPException\<close> and the shortener replies with a mapping it ends with the same
  \<open>KeyError\<close>, status 500.
\<close>

theorem C2_no_successful_resume:
  "app_rank_resumes E requirements resumes \<noteq>
     Raised (HTTPException 400 ''No resumes processed successfully.'')
   \<and> (length resumes \<le> 50 \<and> score_all E requirements resumes [] = Returned [] \<longrightarrow>
        app_rank_resumes E requirements resumes = Raised missing_name
        \<and> http_status (app_rank_resumes E requirements resumes) = 500)
   \<and> (succeeding E requirements resumes = [] \<longrightarrow>
        (\<forall>sheet. routes_rank_resumes E requirements resumes \<noteq> Returned sheet))
   \<and> (list_all is_http (gather E requirements resumes) \<and> shorten_requirements E [] = Returned (PMap m) \<longrightarrow>
        routes_rank_resumes E requirements resumes = Raised missing_name
        \<and> http_status (routes_rank_resumes E requirements resumes) = 500)"
proof -
  have "routes_rank_resumes E requirements resumes \<noteq> Returned sheet"
    if "succeeding E requirements resumes = []" for sheet
    using routes_partial(2) [of E requirements resumes sheet] that by auto
  with app_never_400 [of E requirements resumes] app_no_results [of resumes E requirements]
    routes_no_results [of E requirements resumes m]
  show ?thesis by (auto simp: missing_name_def)
qed

text \<open>
  C2 at a batch of one text file for \<^verbatim>\<open>app.py\<close> and at a batch of one corrupted DOCX
  upload for the main package.
\<close>

theorem C2_no_successful_resume_witness:
  "length [notes_txt] \<le> 50 \<and> score_all demo_env ''Python; Degree'' [notes_txt] [] = Returned []
   \<and> app_rank_resumes demo_env ''Python; Degree'' [notes_txt] = Raised missing_name
   \<and> http_status (app_rank_resumes demo_env ''Python; Degree'' [notes_txt]) = 500
   \<and> succeeding demo_env ''Python; Degree'' [corrupt_docx] = []
   \<and> list_all is_http (gather demo_env ''Python; Degree'' [corrupt_docx])
   \<and> shorten_requirements demo_env [] = Returned (PMap [])
   \<and> routes_rank_resumes demo_env ''Python; Degree'' [corrupt_docx] = Raised missing_name
   \<and> http_status (routes_rank_resumes demo_env ''Python; Degree'' [corrupt_docx]) = 500"
proof -
  let ?r = "''Python; Degree''"
  have h1: "length [notes_txt] \<le> 50 \<and> score_all demo_env ?r [notes_txt] [] = Returned []"
    by (simp add: supported_demo)
  have h2: "list_all is_http (gather demo_env ?r [corrupt_docx])"
    by (simp add: gather_def process_corrupt)
  have h3: "shorten_requirements demo_env [] = Returned (PMap [])"
    by (simp add: shorten_requirements_def demo_env_sel reply_defs)
  have h4: "succeeding demo_env ?r [corrupt_docx] = []"
    by (simp add: succeeding_def process_corrupt)
  from C2_no_successful_resume [of demo_env ?r "[notes_txt]" "[]"] h1
  have a: "app_rank_resumes demo_env ?r [notes_txt] = Raised missing_name
      \<and> http_status (app_rank_resumes demo_env ?r [notes_txt]) = 500"
    by blast
  from C2_no_successful_resume [of demo_env ?r "[corrupt_docx]" "[]"] h2 h3
  have b: "routes_rank_resumes demo_env ?r [corrupt_docx] = Raised missing_name
      \<and> http_status (routes_rank_resumes demo_env ?r [corrupt_docx]) = 500"
    by blast
  from h1 h2 h3 h4 a b show ?thesis
    by (simp add: missing_name_def del: score_all.simps)
qed

end
